theory Spec2Isabelle
  imports Complex_Main "HOL-Library.AList"
begin

section \<open>The streaming client: frame decoding\<close>

text \<open>
  The two generators \<^verbatim>\<open>streamFromResponse\<close> and \<^verbatim>\<open>streamFromCrewResponse\<close> of the API
  client read the response body chunk by chunk, append the decoded text to a buffer, split
  the buffer at every blank line, keep the last segment as the new buffer and yield one
  parsed event for every other segment that starts with \<^verbatim>\<open>data:\<close> and has a non-empty
  payload.

  Modelling decisions.
  \<^item> A character is a UTF-16 code unit below \<open>0x100\<close>, a \<^typ>\<open>char\<close>; a text is a
    \<^typ>\<open>string\<close> and its length is the number of its code units.
  \<^item> A chunk is the text that \<^verbatim>\<open>decoder.decode(value, {stream: true})\<close> returns for it, a
    \<^typ>\<open>string\<close>. The streaming decoder keeps an incomplete multi-byte character
    for the next call, so the text of the chunks is the text of the whole body however the
    bytes are cut; the model starts after that step.
  \<^item> \<^verbatim>\<open>JSON.parse\<close> is a parameter \<open>parse\<close>: \<open>Inl m\<close> is the thrown
    \<^verbatim>\<open>SyntaxError\<close> with the message \<open>m\<close> of the parser, \<open>Inr e\<close> the event.
  \<^item> A generator run is the list of the events it yields and how it ends: \<open>None\<close> for
    a normal return, \<open>Some t\<close> when it throws \<open>t\<close>. The reader ends the same way:
    \<open>None\<close> is \<^verbatim>\<open>done\<close>, \<open>Some t\<close> a failed \<^verbatim>\<open>read()\<close>.
\<close>

datatype thrown = JsError string | NonError

type_synonym 'e run = "'e list \<times> thrown option"

text \<open>Running \<open>g\<close> and, when it did not throw, \<open>h\<close> after it.\<close>

definition and_then :: "'e run \<Rightarrow> 'e run \<Rightarrow> 'e run" where
  "and_then g h =
     (case snd g of
        Some t \<Rightarrow> (fst g, Some t)
      | None \<Rightarrow> (fst g @ fst h, snd h))"

abbreviation nl :: char where
  "nl \<equiv> CHR 0x0A"

text \<open>
  \<^verbatim>\<open>indexOf("\n\n")\<close>: the text before the first blank line and the text after it.
\<close>

fun find_sep :: "string \<Rightarrow> (string \<times> string) option" where
  "find_sep (c # d # s) =
     (if c = nl \<and> d = nl then Some ([], s)
      else (case find_sep (d # s) of
              None \<Rightarrow> None
            | Some (p, r) \<Rightarrow> Some (c # p, r)))"
| "find_sep [c] = None"
| "find_sep [] = None"

lemma find_sep_shorter: "find_sep s = Some (p, r) \<Longrightarrow> length r < length s"
  by (induction s arbitrary: p rule: find_sep.induct)
     (auto split: if_splits option.splits)

text \<open>
  \<^verbatim>\<open>buffer.split("\n\n")\<close>: the segments between successive occurrences of the
  separator, each searched from the end of the one before; the text after the last
  occurrence is the last segment, so the result is never empty.
\<close>

function split_sep :: "string \<Rightarrow> string list" where
  "split_sep s =
     (case find_sep s of
        None \<Rightarrow> [s]
      | Some (p, r) \<Rightarrow> p # split_sep r)"
  by pat_completeness auto
termination
  by (relation "measure length") (auto simp: find_sep_shorter)

declare split_sep.simps [simp del]

fun startsWith :: "string \<Rightarrow> string \<Rightarrow> bool" where
  "startsWith s [] = True"
| "startsWith [] (p # ps) = False"
| "startsWith (c # s) (p # ps) = (c = p \<and> startsWith s ps)"

text \<open>
  The white space and line terminators that \<^verbatim>\<open>trim()\<close> removes, among the code units
  below \<open>0x100\<close>: tab, line feed, vertical tab, form feed, carriage return, space and the
  no-break space. The others (\<open>U+1680\<close>, \<open>U+2000\<close> to \<open>U+200A\<close>, \<open>U+2028\<close>,
  \<open>U+2029\<close>, \<open>U+202F\<close>, \<open>U+205F\<close>, \<open>U+3000\<close>, \<open>U+FEFF\<close>) are not characters of
  the model.
\<close>

definition is_space :: "char \<Rightarrow> bool" where
  "is_space c =
     (c \<in> set [CHR 0x09, CHR 0x0A, CHR 0x0B, CHR 0x0C, CHR 0x0D, CHR 0x20, CHR 0xA0])"

definition trim :: "string \<Rightarrow> string" where
  "trim s = rev (dropWhile is_space (rev (dropWhile is_space s)))"

text \<open>The \<^verbatim>\<open>for (const event of events)\<close> loop of the generator.\<close>

fun yield_events :: "(string \<Rightarrow> string + 'e) \<Rightarrow> string list \<Rightarrow> 'e run" where
  "yield_events parse [] = ([], None)"
| "yield_events parse (event # events) =
     (if \<not> startsWith event ''data:'' then yield_events parse events
      else let json = trim (drop 5 event) in
        if json = [] then yield_events parse events
        else (case parse json of
                Inl m \<Rightarrow> ([], Some (JsError m))
              | Inr e \<Rightarrow> and_then ([e], None) (yield_events parse events)))"

text \<open>
  The \<^verbatim>\<open>while (true)\<close> loop: \<open>buffer\<close> is the loop variable, the list holds the
  chunks still to be read and \<open>fin\<close> tells how the reader ends after them.
\<close>

fun read_loop ::
  "(string \<Rightarrow> string + 'e) \<Rightarrow> string \<Rightarrow> string list \<Rightarrow> thrown option \<Rightarrow> 'e run" where
  "read_loop parse buffer [] fin = ([], fin)"
| "read_loop parse buffer (val # rest) fin =
     (let buffer1 = buffer @ val;
          events = split_sep buffer1;
          buffer2 = last events
      in and_then (yield_events parse (butlast events))
                  (read_loop parse buffer2 rest fin))"

text \<open>
  A response without a body is \<open>None\<close>; otherwise the body is its chunks and its end.
\<close>

definition streamFromResponse ::
  "(string \<Rightarrow> string + 'e) \<Rightarrow> (string list \<times> thrown option) option \<Rightarrow> 'e run" where
  "streamFromResponse parse body =
     (case body of
        None \<Rightarrow> ([], Some (JsError ''Missing stream body''))
      | Some (chunks, fin) \<Rightarrow> read_loop parse [] chunks fin)"

definition streamFromCrewResponse ::
  "(string \<Rightarrow> string + 'e) \<Rightarrow> (string list \<times> thrown option) option \<Rightarrow> 'e run" where
  "streamFromCrewResponse parse body =
     (case body of
        None \<Rightarrow> ([], Some (JsError ''Missing stream body''))
      | Some (chunks, fin) \<Rightarrow> read_loop parse [] chunks fin)"

section \<open>Usage and cost estimation\<close>

text \<open>
  \<^verbatim>\<open>utils/pricing.ts\<close>. A JavaScript number that comes from the wire or from a length is
  a \<^typ>\<open>real\<close>: the arithmetic of the source is read exactly, without the rounding of
  doubles. A cost is computed from a property of a looked-up object and can be
  \<^verbatim>\<open>NaN\<close>, so costs are of the type \<open>jsnum\<close>, whose arithmetic gives \<^verbatim>\<open>NaN\<close> as
  soon as one operand is \<^verbatim>\<open>NaN\<close>.
\<close>

datatype jsnum = Num real | NaN

fun js_add :: "jsnum \<Rightarrow> jsnum \<Rightarrow> jsnum" where
  "js_add (Num a) (Num b) = Num (a + b)"
| "js_add a b = NaN"

fun js_mul :: "jsnum \<Rightarrow> jsnum \<Rightarrow> jsnum" where
  "js_mul (Num a) (Num b) = Num (a * b)"
| "js_mul a b = NaN"

fun js_div :: "jsnum \<Rightarrow> jsnum \<Rightarrow> jsnum" where
  "js_div (Num a) (Num b) = Num (a / b)"
| "js_div a b = NaN"

record PricingRate =
  input' :: real
  output' :: real

definition PRICING :: "(string \<times> PricingRate) list" where
  "PRICING =
    [(''anthropic/claude-sonnet-4-5'', \<lparr>input' = 3.0, output' = 15.0\<rparr>),
     (''anthropic/claude-sonnet-4'', \<lparr>input' = 3.0, output' = 15.0\<rparr>),
     (''anthropic/claude-3.5-sonnet'', \<lparr>input' = 3.0, output' = 15.0\<rparr>),
     (''anthropic/claude-opus-4'', \<lparr>input' = 15.0, output' = 75.0\<rparr>),
     (''anthropic/claude-3-haiku'', \<lparr>input' = 0.25, output' = 1.25\<rparr>),
     (''openai/gpt-4.1'', \<lparr>input' = 2.0, output' = 8.0\<rparr>),
     (''openai/gpt-4o'', \<lparr>input' = 2.5, output' = 10.0\<rparr>),
     (''openai/gpt-4o-mini'', \<lparr>input' = 0.15, output' = 0.6\<rparr>),
     (''google/gemini-2.5-pro'', \<lparr>input' = 1.25, output' = 10.0\<rparr>),
     (''google/gemini-2.0-flash'', \<lparr>input' = 0.1, output' = 0.4\<rparr>),
     (''deepseek/deepseek-r1'', \<lparr>input' = 0.55, output' = 2.19\<rparr>),
     (''deepseek/deepseek-chat'', \<lparr>input' = 0.14, output' = 0.28\<rparr>)]"

definition FALLBACK_PRICING_RATE :: PricingRate where
  "FALLBACK_PRICING_RATE = \<lparr>input' = 1.0, output' = 3.0\<rparr>"

definition estimateTokens :: "string \<Rightarrow> real" where
  "estimateTokens txt = of_int \<lceil>real (length txt) / 4\<rceil>"

text \<open>\<^verbatim>\<open>a ?? b\<close> on an optional value.\<close>

definition nullish :: "'a option \<Rightarrow> 'a \<Rightarrow> 'a" where
  "nullish a b = (case a of None \<Rightarrow> b | Some v \<Rightarrow> v)"

text \<open>
  \<^verbatim>\<open>PRICING\<close> is an object literal, so \<^verbatim>\<open>PRICING[modelId]\<close> also finds what the object
  inherits from \<^verbatim>\<open>Object.prototype\<close>: for one of the names below the read gives a function
  (for \<^verbatim>\<open>__proto__\<close> the prototype object), which is not nullish and has no \<^verbatim>\<open>input\<close> or
  \<^verbatim>\<open>output\<close> property. The result of the read is an own entry of the table, such a member,
  or \<^verbatim>\<open>undefined\<close> (\<open>None\<close>).
\<close>

definition Object_prototype :: "string list" where
  "Object_prototype =
    [''constructor'', ''hasOwnProperty'', ''isPrototypeOf'', ''propertyIsEnumerable'',
     ''toLocaleString'', ''toString'', ''valueOf'', ''__proto__'', ''__defineGetter__'',
     ''__defineSetter__'', ''__lookupGetter__'', ''__lookupSetter__'']"

datatype rate_lookup = Rate PricingRate | Member

definition PRICING_at :: "string \<Rightarrow> rate_lookup option" where
  "PRICING_at key =
     (case map_of PRICING key of
        Some r \<Rightarrow> Some (Rate r)
      | None \<Rightarrow> if key \<in> set Object_prototype then Some Member else None)"

definition getPricing :: "string \<Rightarrow> rate_lookup" where
  "getPricing modelId = nullish (PRICING_at modelId) (Rate FALLBACK_PRICING_RATE)"

text \<open>
  \<^verbatim>\<open>rate.input\<close> and \<^verbatim>\<open>rate.output\<close> as factors of a product: the number of a rate, and
  \<^verbatim>\<open>undefined\<close>, which the product turns into \<^verbatim>\<open>NaN\<close>, for a member of the prototype.
\<close>

fun rate_input :: "rate_lookup \<Rightarrow> jsnum" where
  "rate_input (Rate r) = Num (input' r)"
| "rate_input Member = NaN"

fun rate_output :: "rate_lookup \<Rightarrow> jsnum" where
  "rate_output (Rate r) = Num (output' r)"
| "rate_output Member = NaN"

definition calculateCost :: "real \<Rightarrow> real \<Rightarrow> string \<Rightarrow> jsnum" where
  "calculateCost tokensIn tokensOut modelId =
     (let rate = getPricing modelId
      in js_div (js_add (js_mul (Num tokensIn) (rate_input rate))
                        (js_mul (Num tokensOut) (rate_output rate)))
                (Num 1000000))"

section \<open>Events\<close>

text \<open>
  \<^verbatim>\<open>types/api.ts\<close>. An optional field is an \<^typ>\<open>'a option\<close>. A \<^verbatim>\<open>side\<close> that is
  neither \<^verbatim>\<open>"left"\<close> nor \<^verbatim>\<open>"right"\<close> is treated by the code like a missing one, so
  it is \<open>None\<close> too.
\<close>

datatype side = Left | Right

record StreamUsage =
  prompt_tokens :: "real option"
  completion_tokens :: "real option"
  total_tokens :: "real option"

datatype StreamEvent =
    Start
  | Delta "string option" "side option"
  | Done "side option" "StreamUsage option"
  | Complete "side option" "StreamUsage option"
  | Error "string option" "side option"

datatype CrewStreamEvent =
    CrewStart "string option" "string list option"
  | Plan "(string \<times> string \<times> string) list option"
  | AgentStart "string option" "string option" "string option"
  | AgentDelta "string option" "string option" "string option"
  | AgentDone "string option" "string option" "real option" "real option"
  | SynthesisDelta "string option"
  | CrewDone "real option"
  | CrewError "string option"

text \<open>\<^verbatim>\<open>a || b\<close> on an optional string: a missing and an empty one are both falsy.\<close>

definition or_else :: "string option \<Rightarrow> string \<Rightarrow> string" where
  "or_else a b = (case a of None \<Rightarrow> b | Some v \<Rightarrow> if v = [] then b else v)"

text \<open>\<^verbatim>\<open>error instanceof Error ? error.message : dflt\<close>\<close>

definition error_message :: "thrown \<Rightarrow> string \<Rightarrow> string" where
  "error_message err dflt = (case err of JsError m \<Rightarrow> m | NonError \<Rightarrow> dflt)"

section \<open>The store\<close>

text \<open>
  \<^verbatim>\<open>store/appStore.ts\<close>. The object \<^verbatim>\<open>agentOutputs\<close> is an association list in
  insertion order: a spread with a computed key replaces the value of a key that is there
  and appends a new one, which is \<^const>\<open>AList.update\<close>.
\<close>

datatype Provider = openai | anthropic | openrouter
datatype KeyMode = vault | local
datatype ChatMode = single_mode | compare_mode | crew_mode

record ModelChoice =
  provider :: Provider
  modelId :: string
  keyMode :: KeyMode
  localApiKey :: "string option"

record AgentOutput =
  status :: string
  text' :: string
  model :: string
  cost' :: "real option"
  tokens' :: "real option"

text \<open>A \<^verbatim>\<open>Partial<AgentOutput>\<close>: \<open>None\<close> for a key that the update does not have.\<close>

record AgentUpdate =
  u_status :: "string option"
  u_text :: "string option"
  u_model :: "string option"
  u_cost :: "real option"
  u_tokens :: "real option"

definition no_update :: AgentUpdate where
  "no_update = \<lparr>u_status = None, u_text = None, u_model = None, u_cost = None, u_tokens = None\<rparr>"

record AppState =
  chatMode :: ChatMode
  sessionId :: "string option"
  single :: ModelChoice
  left :: ModelChoice
  right :: ModelChoice
  crewName :: string
  agentOutputs :: "(string \<times> AgentOutput) list"
  synthesisText :: string
  crewTotalCost :: real
  crewBudget :: real
  sessionTokensIn :: real
  sessionTokensOut :: real
  sessionCost :: jsnum

definition defaultChoice :: ModelChoice where
  "defaultChoice =
     \<lparr>provider = openrouter, modelId = ''openrouter/auto'', keyMode = vault, localApiKey = None\<rparr>"

definition initialState :: AppState where
  "initialState =
     \<lparr>chatMode = single_mode, sessionId = None, single = defaultChoice, left = defaultChoice,
      right = \<lparr>provider = openrouter, modelId = ''openrouter/free'', keyMode = vault,
               localApiKey = None\<rparr>,
      crewName = ''default'', agentOutputs = [], synthesisText = [], crewTotalCost = 0,
      crewBudget = 5.0, sessionTokensIn = 0, sessionTokensOut = 0,
      sessionCost = Num 0\<rparr>"

text \<open>
  \<^verbatim>\<open>{ ...{status: "pending", text: "", model: ""}, ...state.agentOutputs[agent], ...update }\<close>:
  every entry of \<^verbatim>\<open>agentOutputs\<close> has the three keys of the default, so the first two
  spreads give the entry when there is one and the default otherwise; then each key of
  the update replaces the value under it.
\<close>

definition spread :: "AgentOutput option \<Rightarrow> AgentUpdate \<Rightarrow> AgentOutput" where
  "spread existing update =
     (let base = nullish existing
                   \<lparr>status = ''pending'', text' = [], model = [], cost' = None, tokens' = None\<rparr>
      in \<lparr>status = nullish (u_status update) (status base),
          text' = nullish (u_text update) (text' base),
          model = nullish (u_model update) (model base),
          cost' = (case u_cost update of Some c \<Rightarrow> Some c | None \<Rightarrow> cost' base),
          tokens' = (case u_tokens update of Some t \<Rightarrow> Some t | None \<Rightarrow> tokens' base)\<rparr>)"

definition updateAgentOutput :: "string \<Rightarrow> AgentUpdate \<Rightarrow> AppState \<Rightarrow> AppState" where
  "updateAgentOutput agent update state =
     state\<lparr>agentOutputs :=
       AList.update agent (spread (map_of (agentOutputs state) agent) update)
         (agentOutputs state)\<rparr>"

definition setSynthesisText :: "string \<Rightarrow> AppState \<Rightarrow> AppState" where
  "setSynthesisText txt state = state\<lparr>synthesisText := synthesisText state @ txt\<rparr>"

definition setCrewBudget :: "real \<Rightarrow> AppState \<Rightarrow> AppState" where
  "setCrewBudget budget state = state\<lparr>crewBudget := budget\<rparr>"

definition setCrewTotalCost :: "real \<Rightarrow> AppState \<Rightarrow> AppState" where
  "setCrewTotalCost c state = state\<lparr>crewTotalCost := c\<rparr>"

definition resetCrewState :: "AppState \<Rightarrow> AppState" where
  "resetCrewState state = state\<lparr>agentOutputs := [], synthesisText := [], crewTotalCost := 0\<rparr>"

definition addUsage :: "real \<Rightarrow> real \<Rightarrow> jsnum \<Rightarrow> AppState \<Rightarrow> AppState" where
  "addUsage tokensIn tokensOut c state =
     state\<lparr>sessionTokensIn := sessionTokensIn state + tokensIn,
           sessionTokensOut := sessionTokensOut state + tokensOut,
           sessionCost := js_add (sessionCost state) c\<rparr>"

definition resetUsage :: "AppState \<Rightarrow> AppState" where
  "resetUsage state = state\<lparr>sessionTokensIn := 0, sessionTokensOut := 0,
           sessionCost := Num 0\<rparr>"

section \<open>Single mode\<close>

text \<open>
  \<^verbatim>\<open>components/SingleChatPanel.tsx\<close>. The component state and the ref are a record; the
  two local variables of \<^verbatim>\<open>submit\<close> travel with the panel and the store through the
  loop. State setters with an updater function are applied in the order of the calls.
\<close>

record UsageInfo =
  tokensIn :: real
  tokensOut :: real
  cost :: jsnum
  estimated :: bool

record SingleChatPanel =
  prompt :: string
  imageUrl :: string
  response :: string
  busy :: bool
  usage :: "UsageInfo option"
  promptRef :: string

record single_run =
  gotServerUsage :: bool
  accumulated :: string
  panel :: SingleChatPanel
  store :: AppState

definition canSend :: "SingleChatPanel \<Rightarrow> bool" where
  "canSend p = (length (trim (prompt p)) > 0 \<and> \<not> busy p)"

text \<open>The \<^verbatim>\<open>usage\<close> of a \<^verbatim>\<open>done\<close> or \<^verbatim>\<open>complete\<close> event, when it has one.\<close>

fun terminal_usage :: "StreamEvent \<Rightarrow> StreamUsage option" where
  "terminal_usage (Done sd u) = u"
| "terminal_usage (Complete sd u) = u"
| "terminal_usage ev = None"

text \<open>The body of \<^verbatim>\<open>for await (const eventData of stream)\<close>.\<close>

definition single_event :: "ModelChoice \<Rightarrow> single_run \<Rightarrow> StreamEvent \<Rightarrow> single_run" where
  "single_event choice r eventData =
     (let r1 = (case eventData of
                  Delta (Some txt) sd \<Rightarrow>
                    if txt \<noteq> [] then
                      r\<lparr>accumulated := accumulated r @ txt,
                        panel := (panel r)\<lparr>response := response (panel r) @ txt\<rparr>\<rparr>
                    else r
                | _ \<Rightarrow> r)
      in case terminal_usage eventData of
           Some u \<Rightarrow>
             (let tokensIn = nullish (prompt_tokens u) 0;
                  tokensOut = nullish (completion_tokens u) 0;
                  c = calculateCost tokensIn tokensOut (modelId choice)
              in r1\<lparr>panel := (panel r1)\<lparr>usage :=
                      Some \<lparr>tokensIn = tokensIn, tokensOut = tokensOut, cost = c,
                            estimated = False\<rparr>\<rparr>,
                    store := addUsage tokensIn tokensOut c (store r1),
                    gotServerUsage := True\<rparr>)
         | None \<Rightarrow> r1)"

text \<open>The \<^verbatim>\<open>finally\<close> block, before \<^verbatim>\<open>setBusy(false)\<close>.\<close>

definition single_fallback :: "ModelChoice \<Rightarrow> single_run \<Rightarrow> single_run" where
  "single_fallback choice r =
     (if \<not> gotServerUsage r \<and> length (accumulated r) > 0 then
        (let tokensIn = estimateTokens (promptRef (panel r));
             tokensOut = estimateTokens (accumulated r);
             c = calculateCost tokensIn tokensOut (modelId choice)
         in r\<lparr>panel := (panel r)\<lparr>usage :=
                  Some \<lparr>tokensIn = tokensIn, tokensOut = tokensOut, cost = c,
                        estimated = True\<rparr>\<rparr>,
               store := addUsage tokensIn tokensOut c (store r)\<rparr>)
      else r)"

text \<open>
  \<^verbatim>\<open>submit\<close>. The stream is the run of the generator: its events, and the error it throws
  after them if it throws; a request that fails before the first event is a run without
  events.
\<close>

definition submit ::
  "ModelChoice \<Rightarrow> StreamEvent run \<Rightarrow> SingleChatPanel \<times> AppState \<Rightarrow> SingleChatPanel \<times> AppState" where
  "submit choice stream ps =
     (if \<not> canSend (fst ps) then ps
      else
        let p1 = (fst ps)\<lparr>busy := True, response := [], usage := None,
                          promptRef := prompt (fst ps)\<rparr>;
            r0 = \<lparr>gotServerUsage = False, accumulated = [], panel = p1, store = snd ps\<rparr>;
            r1 = foldl (single_event choice) r0 (fst stream);
            r2 = (case snd stream of
                    None \<Rightarrow> r1
                  | Some err \<Rightarrow>
                      r1\<lparr>panel := (panel r1)\<lparr>response := error_message err ''Stream failed''\<rparr>\<rparr>);
            r3 = single_fallback choice r2
        in ((panel r3)\<lparr>busy := False\<rparr>, store r3))"

section \<open>Compare mode\<close>

text \<open>
  \<^verbatim>\<open>components/ComparePanel.tsx\<close>. \<^verbatim>\<open>SideUsage\<close> has the fields of \<^verbatim>\<open>UsageInfo\<close>.
\<close>

type_synonym SideUsage = UsageInfo

record ComparePanel =
  cprompt :: string
  leftOutput :: string
  rightOutput :: string
  cbusy :: bool
  leftUsage :: "SideUsage option"
  rightUsage :: "SideUsage option"
  cpromptRef :: string
  leftAccRef :: string
  rightAccRef :: string

record compare_run =
  gotLeftUsage :: bool
  gotRightUsage :: bool
  cpanel :: ComparePanel
  cstore :: AppState

text \<open>\<^verbatim>\<open>prev || txt\<close>\<close>

definition keep_or :: "string \<Rightarrow> string \<Rightarrow> string" where
  "keep_or prev txt = (if prev \<noteq> [] then prev else txt)"

fun event_side :: "StreamEvent \<Rightarrow> side option" where
  "event_side Start = None"
| "event_side (Delta txt sd) = sd"
| "event_side (Done sd u) = sd"
| "event_side (Complete sd u) = sd"
| "event_side (Error msg sd) = sd"

text \<open>The \<^verbatim>\<open>if\<close> \<^verbatim>\<open>else if\<close> chain on deltas and errors.\<close>

definition compare_text :: "compare_run \<Rightarrow> StreamEvent \<Rightarrow> compare_run" where
  "compare_text r eventData =
     (case eventData of
        Delta (Some txt) (Some Left) \<Rightarrow>
          if txt \<noteq> [] then
            r\<lparr>cpanel := (cpanel r)\<lparr>leftAccRef := leftAccRef (cpanel r) @ txt,
                                   leftOutput := leftOutput (cpanel r) @ txt\<rparr>\<rparr>
          else r
      | Delta (Some txt) (Some Right) \<Rightarrow>
          if txt \<noteq> [] then
            r\<lparr>cpanel := (cpanel r)\<lparr>rightAccRef := rightAccRef (cpanel r) @ txt,
                                   rightOutput := rightOutput (cpanel r) @ txt\<rparr>\<rparr>
          else r
      | Error msg sd \<Rightarrow>
          (let message = or_else msg ''Stream failed'' in
           case sd of
             Some Left \<Rightarrow>
               r\<lparr>cpanel := (cpanel r)\<lparr>leftOutput :=
                     keep_or (leftOutput (cpanel r)) (''Error: '' @ message)\<rparr>\<rparr>
           | Some Right \<Rightarrow>
               r\<lparr>cpanel := (cpanel r)\<lparr>rightOutput :=
                     keep_or (rightOutput (cpanel r)) (''Error: '' @ message)\<rparr>\<rparr>
           | None \<Rightarrow>
               r\<lparr>cpanel := (cpanel r)\<lparr>
                     leftOutput := keep_or (leftOutput (cpanel r)) (''Error: '' @ message),
                     rightOutput := keep_or (rightOutput (cpanel r)) (''Error: '' @ message)\<rparr>\<rparr>)
      | _ \<Rightarrow> r)"

text \<open>The second \<^verbatim>\<open>if\<close> of the loop body: a terminal event with usage.\<close>

definition compare_usage ::
  "ModelChoice \<Rightarrow> ModelChoice \<Rightarrow> compare_run \<Rightarrow> StreamEvent \<Rightarrow> compare_run" where
  "compare_usage lft rgt r eventData =
     (case terminal_usage eventData of
        Some u \<Rightarrow>
          (let tokensIn = nullish (prompt_tokens u) 0;
               tokensOut = nullish (completion_tokens u) 0
           in case event_side eventData of
                Some Left \<Rightarrow>
                  (let c = calculateCost tokensIn tokensOut (modelId lft)
                   in r\<lparr>cpanel := (cpanel r)\<lparr>leftUsage :=
                           Some \<lparr>tokensIn = tokensIn, tokensOut = tokensOut, cost = c,
                                 estimated = False\<rparr>\<rparr>,
                         cstore := addUsage tokensIn tokensOut c (cstore r),
                         gotLeftUsage := True\<rparr>)
              | Some Right \<Rightarrow>
                  (let c = calculateCost tokensIn tokensOut (modelId rgt)
                   in r\<lparr>cpanel := (cpanel r)\<lparr>rightUsage :=
                           Some \<lparr>tokensIn = tokensIn, tokensOut = tokensOut, cost = c,
                                 estimated = False\<rparr>\<rparr>,
                         cstore := addUsage tokensIn tokensOut c (cstore r),
                         gotRightUsage := True\<rparr>)
              | None \<Rightarrow> r)
      | None \<Rightarrow> r)"

definition compare_event ::
  "ModelChoice \<Rightarrow> ModelChoice \<Rightarrow> compare_run \<Rightarrow> StreamEvent \<Rightarrow> compare_run" where
  "compare_event lft rgt r eventData = compare_usage lft rgt (compare_text r eventData) eventData"

definition compare_fallback_left :: "ModelChoice \<Rightarrow> compare_run \<Rightarrow> compare_run" where
  "compare_fallback_left lft r =
     (if \<not> gotLeftUsage r \<and> length (leftAccRef (cpanel r)) > 0 then
        (let tokensIn = estimateTokens (cpromptRef (cpanel r));
             tokensOut = estimateTokens (leftAccRef (cpanel r));
             c = calculateCost tokensIn tokensOut (modelId lft)
         in r\<lparr>cpanel := (cpanel r)\<lparr>leftUsage :=
                  Some \<lparr>tokensIn = tokensIn, tokensOut = tokensOut, cost = c,
                        estimated = True\<rparr>\<rparr>,
               cstore := addUsage tokensIn tokensOut c (cstore r)\<rparr>)
      else r)"

definition compare_fallback_right :: "ModelChoice \<Rightarrow> compare_run \<Rightarrow> compare_run" where
  "compare_fallback_right rgt r =
     (if \<not> gotRightUsage r \<and> length (rightAccRef (cpanel r)) > 0 then
        (let tokensIn = estimateTokens (cpromptRef (cpanel r));
             tokensOut = estimateTokens (rightAccRef (cpanel r));
             c = calculateCost tokensIn tokensOut (modelId rgt)
         in r\<lparr>cpanel := (cpanel r)\<lparr>rightUsage :=
                  Some \<lparr>tokensIn = tokensIn, tokensOut = tokensOut, cost = c,
                        estimated = True\<rparr>\<rparr>,
               cstore := addUsage tokensIn tokensOut c (cstore r)\<rparr>)
      else r)"

definition compare_submit ::
  "ModelChoice \<Rightarrow> ModelChoice \<Rightarrow> StreamEvent run \<Rightarrow> ComparePanel \<times> AppState
     \<Rightarrow> ComparePanel \<times> AppState" where
  "compare_submit lft rgt stream ps =
     (if trim (cprompt (fst ps)) = [] \<or> cbusy (fst ps) then ps
      else
        let p1 = (fst ps)\<lparr>cbusy := True, leftOutput := [], rightOutput := [],
                          leftUsage := None, rightUsage := None,
                          cpromptRef := cprompt (fst ps), leftAccRef := [], rightAccRef := []\<rparr>;
            r0 = \<lparr>gotLeftUsage = False, gotRightUsage = False, cpanel = p1, cstore = snd ps\<rparr>;
            r1 = foldl (compare_event lft rgt) r0 (fst stream);
            r2 = (case snd stream of
                    None \<Rightarrow> r1
                  | Some err \<Rightarrow>
                      (let txt = error_message err ''Compare stream failed''
                       in r1\<lparr>cpanel := (cpanel r1)\<lparr>leftOutput := txt, rightOutput := txt\<rparr>\<rparr>));
            r3 = compare_fallback_right rgt (compare_fallback_left lft r2)
        in ((cpanel r3)\<lparr>cbusy := False\<rparr>, cstore r3))"

section \<open>Crew mode\<close>

text \<open>\<^verbatim>\<open>components/CrewPanel.tsx\<close> and \<^verbatim>\<open>components/CrewDashboard.tsx\<close>.\<close>

record CrewPanel =
  task :: string
  isRunning :: bool
  error' :: "string option"

text \<open>\<^verbatim>\<open>agentOutputs[agent]?.text || ""\<close>\<close>

definition agent_text :: "AppState \<Rightarrow> string \<Rightarrow> string" where
  "agent_text state agent =
     (case map_of (agentOutputs state) agent of None \<Rightarrow> [] | Some out \<Rightarrow> text' out)"

text \<open>The \<^verbatim>\<open>switch (event.type)\<close> of the loop body; a \<^verbatim>\<open>plan\<close> event has no case.\<close>

fun crew_event :: "CrewPanel \<times> AppState \<Rightarrow> CrewStreamEvent \<Rightarrow> CrewPanel \<times> AppState" where
  "crew_event (p, s) (CrewStart sid agents) =
     (p, foldl (\<lambda>st a. updateAgentOutput a
                  (no_update\<lparr>u_status := Some ''pending'', u_text := Some [], u_model := Some []\<rparr>) st)
           s (nullish agents []))"
| "crew_event (p, s) (AgentStart agent subtaskId mdl) =
     (case agent of
        Some a \<Rightarrow>
          if a \<noteq> [] then
            (p, updateAgentOutput a
                  (no_update\<lparr>u_status := Some ''running'', u_model := Some (or_else mdl [])\<rparr>) s)
          else (p, s)
      | None \<Rightarrow> (p, s))"
| "crew_event (p, s) (AgentDelta agent subtaskId txt) =
     (case agent of
        Some a \<Rightarrow>
          (case txt of
             Some t \<Rightarrow>
               if a \<noteq> [] \<and> t \<noteq> [] then
                 (p, updateAgentOutput a (no_update\<lparr>u_text := Some (agent_text s a @ t)\<rparr>) s)
               else (p, s)
           | None \<Rightarrow> (p, s))
      | None \<Rightarrow> (p, s))"
| "crew_event (p, s) (AgentDone agent subtaskId c tk) =
     (case agent of
        Some a \<Rightarrow>
          if a \<noteq> [] then
            (p, updateAgentOutput a
                  (no_update\<lparr>u_status := Some ''done'', u_cost := c, u_tokens := tk\<rparr>) s)
          else (p, s)
      | None \<Rightarrow> (p, s))"
| "crew_event (p, s) (CrewDone totalCost) =
     (case totalCost of Some c \<Rightarrow> (p, setCrewTotalCost c s) | None \<Rightarrow> (p, s))"
| "crew_event (p, s) (SynthesisDelta txt) =
     (case txt of
        Some t \<Rightarrow> if t \<noteq> [] then (p, setSynthesisText t s) else (p, s)
      | None \<Rightarrow> (p, s))"
| "crew_event (p, s) (CrewError msg) = (p\<lparr>error' := Some (or_else msg ''Unknown error'')\<rparr>, s)"
| "crew_event (p, s) (Plan subtasks) = (p, s)"

definition handleSubmit ::
  "CrewStreamEvent run \<Rightarrow> CrewPanel \<times> AppState \<Rightarrow> CrewPanel \<times> AppState" where
  "handleSubmit stream ps =
     (if trim (task (fst ps)) = [] \<or> isRunning (fst ps) then ps
      else
        let p1 = (fst ps)\<lparr>isRunning := True, error' := None\<rparr>;
            s1 = resetCrewState (snd ps);
            ps2 = foldl crew_event (p1, s1) (fst stream);
            p3 = (case snd stream of
                    None \<Rightarrow> fst ps2
                  | Some err \<Rightarrow> (fst ps2)\<lparr>error' := Some (error_message err ''Stream failed'')\<rparr>)
        in (p3\<lparr>isRunning := False\<rparr>, snd ps2))"

text \<open>
  The figures of the dashboard: the two \<^verbatim>\<open>reduce\<close> calls over the entries of
  \<^verbatim>\<open>agentOutputs\<close>, the choice between the crew total and the sum, and the condition under
  which the totals row is rendered.
\<close>

definition totalTokens :: "AppState \<Rightarrow> real" where
  "totalTokens state = foldl (\<lambda>sum e. sum + nullish (tokens' (snd e)) 0) 0 (agentOutputs state)"

definition agentCostSum :: "AppState \<Rightarrow> real" where
  "agentCostSum state = foldl (\<lambda>sum e. sum + nullish (cost' (snd e)) 0) 0 (agentOutputs state)"

definition totalCost :: "AppState \<Rightarrow> real" where
  "totalCost state =
     (if crewTotalCost state > 0 then crewTotalCost state else agentCostSum state)"

definition hasAnyDone :: "AppState \<Rightarrow> bool" where
  "hasAnyDone state = list_ex (\<lambda>e. status (snd e) = ''done'') (agentOutputs state)"

definition totals_row :: "AppState \<Rightarrow> real option" where
  "totals_row state =
     (if hasAnyDone state \<and> (totalTokens state > 0 \<or> totalCost state > 0)
      then Some (totalCost state) else None)"

section \<open>Notions used to state the properties\<close>

text \<open>The text that one event adds to a single-mode response, and that of a stream.\<close>

fun delta_text :: "StreamEvent \<Rightarrow> string" where
  "delta_text (Delta (Some txt) sd) = txt"
| "delta_text ev = []"

definition deltas :: "StreamEvent list \<Rightarrow> string" where
  "deltas evs = concat (map delta_text evs)"

text \<open>The usage records of the usage-bearing terminal events of a stream, in order.\<close>

definition usages :: "StreamEvent list \<Rightarrow> StreamUsage list" where
  "usages evs = List.map_filter terminal_usage evs"

text \<open>
  The record that the claims describe for server-reported usage, and the one for estimated
  usage, with the cost written out from the pricing rate of the model id; it is \<^verbatim>\<open>NaN\<close>
  when the lookup of the model id gives a member of the prototype.
\<close>

definition reported :: "string \<Rightarrow> StreamUsage \<Rightarrow> UsageInfo" where
  "reported mid u =
     \<lparr>tokensIn = nullish (prompt_tokens u) 0,
      tokensOut = nullish (completion_tokens u) 0,
      cost = (case getPricing mid of
                Rate r \<Rightarrow>
                  Num ((nullish (prompt_tokens u) 0 * input' r +
                        nullish (completion_tokens u) 0 * output' r) / 1000000)
              | Member \<Rightarrow> NaN),
      estimated = False\<rparr>"

definition estimate :: "string \<Rightarrow> string \<Rightarrow> string \<Rightarrow> UsageInfo" where
  "estimate mid question answer =
     \<lparr>tokensIn = of_int \<lceil>real (length question) / 4\<rceil>,
      tokensOut = of_int \<lceil>real (length answer) / 4\<rceil>,
      cost = (case getPricing mid of
                Rate r \<Rightarrow>
                  Num ((of_int \<lceil>real (length question) / 4\<rceil> * input' r +
                        of_int \<lceil>real (length answer) / 4\<rceil> * output' r) / 1000000)
              | Member \<Rightarrow> NaN),
      estimated = True\<rparr>"

text \<open>Adding one usage record to the session totals.\<close>

definition charge :: "AppState \<Rightarrow> UsageInfo \<Rightarrow> AppState" where
  "charge state info = addUsage (tokensIn info) (tokensOut info) (cost info) state"

text \<open>The same notions for one side of a compare stream.\<close>

fun side_delta :: "side \<Rightarrow> StreamEvent \<Rightarrow> string" where
  "side_delta sd (Delta (Some txt) (Some sd')) = (if sd' = sd then txt else [])"
| "side_delta sd ev = []"

definition side_deltas :: "side \<Rightarrow> StreamEvent list \<Rightarrow> string" where
  "side_deltas sd evs = concat (map (side_delta sd) evs)"

definition side_usage :: "side \<Rightarrow> StreamEvent \<Rightarrow> StreamUsage option" where
  "side_usage sd ev = (if event_side ev = Some sd then terminal_usage ev else None)"

definition side_usages :: "side \<Rightarrow> StreamEvent list \<Rightarrow> StreamUsage list" where
  "side_usages sd evs = List.map_filter (side_usage sd) evs"

text \<open>
  The record of a usage-bearing terminal event that carries a side tag, priced with the
  model of its side.
\<close>

definition tagged_usage :: "ModelChoice \<Rightarrow> ModelChoice \<Rightarrow> StreamEvent \<Rightarrow> UsageInfo option" where
  "tagged_usage lft rgt ev =
     (case terminal_usage ev of
        None \<Rightarrow> None
      | Some u \<Rightarrow>
          (case event_side ev of
             None \<Rightarrow> None
           | Some Left \<Rightarrow> Some (reported (modelId lft) u)
           | Some Right \<Rightarrow> Some (reported (modelId rgt) u)))"

definition tagged_usages :: "ModelChoice \<Rightarrow> ModelChoice \<Rightarrow> StreamEvent list \<Rightarrow> UsageInfo list" where
  "tagged_usages lft rgt evs = List.map_filter (tagged_usage lft rgt) evs"

text \<open>What the store holds for an agent: \<^verbatim>\<open>agentOutputs[agent]?.tokens\<close> and the cost.\<close>

definition agent_tokens :: "AppState \<Rightarrow> string \<Rightarrow> real option" where
  "agent_tokens state agent =
     (case map_of (agentOutputs state) agent of None \<Rightarrow> None | Some out \<Rightarrow> tokens' out)"

definition agent_cost :: "AppState \<Rightarrow> string \<Rightarrow> real option" where
  "agent_cost state agent =
     (case map_of (agentOutputs state) agent of None \<Rightarrow> None | Some out \<Rightarrow> cost' out)"

text \<open>The events that set the crew total: a \<^verbatim>\<open>crew_done\<close> whose total is a number.\<close>

fun sets_total :: "CrewStreamEvent \<Rightarrow> bool" where
  "sets_total (CrewDone (Some c)) = True"
| "sets_total ev = False"

section \<open>Example inputs\<close>

definition demo_panel :: SingleChatPanel where
  "demo_panel =
     \<lparr>prompt = ''hello'', imageUrl = [], response = [], busy = False, usage = None,
      promptRef = []\<rparr>"

definition demo_compare :: ComparePanel where
  "demo_compare =
     \<lparr>cprompt = ''hello'', leftOutput = [], rightOutput = [], cbusy = False, leftUsage = None,
      rightUsage = None, cpromptRef = [], leftAccRef = [], rightAccRef = []\<rparr>"

definition demo_usage :: StreamUsage where
  "demo_usage = \<lparr>prompt_tokens = Some 10, completion_tokens = Some 5, total_tokens = None\<rparr>"

definition inherited_choice :: ModelChoice where
  "inherited_choice =
     \<lparr>provider = openrouter, modelId = ''constructor'', keyMode = vault, localApiKey = None\<rparr>"

definition gpt4o :: ModelChoice where
  "gpt4o = \<lparr>provider = openai, modelId = ''openai/gpt-4o'', keyMode = vault, localApiKey = None\<rparr>"

definition demo_run :: compare_run where
  "demo_run =
     \<lparr>gotLeftUsage = False, gotRightUsage = False,
      cpanel = demo_compare\<lparr>leftOutput := ''abc'', leftAccRef := ''abc''\<rparr>,
      cstore = initialState\<rparr>"

definition demo_crew :: CrewPanel where
  "demo_crew = \<lparr>task = ''go'', isRunning = False, error' = None\<rparr>"

text \<open>The store after \<^verbatim>\<open>agent_done\<close> for the agent \<^verbatim>\<open>planner\<close> with 40 tokens and no cost.\<close>

definition demo_store :: AppState where
  "demo_store =
     snd (crew_event (demo_crew, initialState) (AgentDone (Some ''planner'') None None (Some 40)))"

section \<open>Chunk-boundary independence of the decoder\<close>

definition frames :: "string \<Rightarrow> string list" where
  "frames s = butlast (split_sep s)"

definition remainder :: "string \<Rightarrow> string" where
  "remainder s = last (split_sep s)"

lemma split_sep_not_Nil: "split_sep s \<noteq> []"
  by (subst split_sep.simps) (simp split: option.splits)

lemma frames_no_sep: "find_sep s = None \<Longrightarrow> frames s = []"
  unfolding frames_def by (subst split_sep.simps) simp

lemma remainder_no_sep: "find_sep s = None \<Longrightarrow> remainder s = s"
  unfolding remainder_def by (subst split_sep.simps) simp

lemma frames_sep: "find_sep s = Some (p, r) \<Longrightarrow> frames s = p # frames r"
  unfolding frames_def by (subst split_sep.simps) (simp add: split_sep_not_Nil)

lemma remainder_sep: "find_sep s = Some (p, r) \<Longrightarrow> remainder s = remainder r"
  unfolding remainder_def by (subst split_sep.simps) (simp add: split_sep_not_Nil)

lemma find_sep_append:
  "find_sep a = Some (p, r) \<Longrightarrow> find_sep (a @ b) = Some (p, r @ b)"
  by (induction a arbitrary: p rule: find_sep.induct)
     (auto split: if_splits option.splits)

lemma find_sep_remainder: "find_sep (remainder s) = None"
proof (induction s rule: split_sep.induct)
  case (1 s)
  show ?case
  proof (cases "find_sep s")
    case None
    then show ?thesis by (simp add: remainder_no_sep)
  next
    case (Some pr)
    obtain p r where pr: "pr = (p, r)" by (cases pr)
    with Some 1 show ?thesis by (simp add: remainder_sep)
  qed
qed

text \<open>
  Splitting is incremental: the frames of \<open>a @ b\<close> are the frames of \<open>a\<close> followed by
  the frames of what \<open>a\<close> left in the buffer with \<open>b\<close> appended.
\<close>

lemma split_incremental:
  "frames (a @ b) = frames a @ frames (remainder a @ b) \<and>
   remainder (a @ b) = remainder (remainder a @ b)"
proof (induction a rule: split_sep.induct)
  case (1 a)
  show ?case
  proof (cases "find_sep a")
    case None
    then show ?thesis by (simp add: frames_no_sep remainder_no_sep)
  next
    case (Some pr)
    obtain p r where pr: "pr = (p, r)" by (cases pr)
    from Some pr have a: "find_sep a = Some (p, r)" by simp
    from a have ab: "find_sep (a @ b) = Some (p, r @ b)" by (rule find_sep_append)
    from 1 a have ih: "frames (r @ b) = frames r @ frames (remainder r @ b)"
      "remainder (r @ b) = remainder (remainder r @ b)" by simp_all
    show ?thesis
      by (simp add: frames_sep [OF a] frames_sep [OF ab] remainder_sep [OF a]
          remainder_sep [OF ab] ih)
  qed
qed

lemma and_then_assoc: "and_then (and_then f g) h = and_then f (and_then g h)"
  by (cases f; cases g; cases h) (auto simp: and_then_def split: option.splits)

lemma and_then_empty: "and_then ([], None) g = g"
  by (simp add: and_then_def)

lemma yield_events_append:
  "yield_events parse (xs @ ys) = and_then (yield_events parse xs) (yield_events parse ys)"
  by (induction xs)
     (auto simp: and_then_empty and_then_assoc Let_def and_then_def
       split: option.splits sum.splits)

lemma read_loop_step:
  "read_loop parse buffer (val # rest) fin =
     and_then (yield_events parse (frames (buffer @ val)))
              (read_loop parse (remainder (buffer @ val)) rest fin)"
  by (simp add: Let_def frames_def remainder_def)

lemma read_loop_concat:
  "find_sep buffer = None \<Longrightarrow>
   read_loop parse buffer chunks fin = read_loop parse buffer [concat chunks] fin"
proof (induction chunks arbitrary: buffer)
  case Nil
  then show ?case
    by (simp add: read_loop_step frames_no_sep and_then_empty del: read_loop.simps(2))
next
  case (Cons c cs)
  have "read_loop parse buffer (c # cs) fin =
        and_then (yield_events parse (frames (buffer @ c)))
                 (read_loop parse (remainder (buffer @ c)) [concat cs] fin)"
    using Cons.IH [OF find_sep_remainder] by (simp only: read_loop_step)
  also have "\<dots> = and_then (yield_events parse (frames (buffer @ c)))
        (and_then (yield_events parse (frames (remainder (buffer @ c) @ concat cs)))
           (read_loop parse (remainder (remainder (buffer @ c) @ concat cs)) [] fin))"
    by (simp only: read_loop_step)
  also have "\<dots> = and_then (yield_events parse (frames ((buffer @ c) @ concat cs)))
        (read_loop parse (remainder ((buffer @ c) @ concat cs)) [] fin)"
    using split_incremental [of "buffer @ c" "concat cs"]
    by (simp only: yield_events_append and_then_assoc)
  also have "\<dots> = read_loop parse buffer [concat (c # cs)] fin"
    by (simp only: read_loop_step concat.simps append_assoc)
  finally show ?case .
qed

text \<open>
  C1. Frame decoding does not depend on the chunk boundaries: however the body is cut
  into chunks, and however the reader ends, both generators yield the same events in the
  same order, and end in the same way, as on the whole body delivered as one chunk.
\<close>

theorem chunk_boundary_independence:
  "streamFromResponse parse (Some (chunks, fin)) =
     streamFromResponse parse (Some ([concat chunks], fin)) \<and>
   streamFromCrewResponse parse' (Some (chunks, fin)) =
     streamFromCrewResponse parse' (Some ([concat chunks], fin))"
  unfolding streamFromResponse_def streamFromCrewResponse_def
  using read_loop_concat [of "[]" parse chunks fin]
    read_loop_concat [of "[]" parse' chunks fin]
  by simp


theorem chunk_boundary_independence_witness:
  "streamFromResponse Inr
     (Some ([''data: x'' @ [nl], nl # ''da'', ''ta:y'' @ [nl, nl] @ ''data: z''], None)) =
     ([''x'', ''y''], None) \<and>
   streamFromCrewResponse Inr
     (Some ([''data: x'' @ [nl], nl # ''da'', ''ta:y'' @ [nl, nl] @ ''data: z''],
            Some NonError)) =
     ([''x'', ''y''], Some NonError)"
proof -
  have whole: "split_sep (''data: x'' @ [nl, nl] @ ''data:y'' @ [nl, nl] @ ''data: z'') =
      [''data: x'', ''data:y'', ''data: z'']"
    by (simp add: split_sep.simps)
  have one: "read_loop Inr [] [''data: x'' @ [nl, nl] @ ''data:y'' @ [nl, nl] @ ''data: z''] fin =
      ([''x'', ''y''], fin)" for fin
    using whole by (simp add: and_then_def trim_def is_space_def)
  show ?thesis
    using chunk_boundary_independence [of Inr
        "[''data: x'' @ [nl], nl # ''da'', ''ta:y'' @ [nl, nl] @ ''data: z'']" None Inr]
      chunk_boundary_independence [of Inr
        "[''data: x'' @ [nl], nl # ''da'', ''ta:y'' @ [nl, nl] @ ''data: z'']" "Some NonError" Inr]
      one [of None] one [of "Some NonError"]
    by (simp add: streamFromResponse_def streamFromCrewResponse_def del: read_loop.simps)
qed

section \<open>Single mode: what one submit does\<close>

text \<open>The cost that \<^const>\<open>calculateCost\<close> returns, by the result of the lookup.\<close>

lemma calculateCost_eq:
  "calculateCost tin tout mid =
     (case getPricing mid of
        Rate r \<Rightarrow> Num ((tin * input' r + tout * output' r) / 1000000)
      | Member \<Rightarrow> NaN)"
  by (cases "getPricing mid") (simp_all add: calculateCost_def Let_def)

lemma single_event_accumulated:
  "accumulated (single_event choice r ev) = accumulated r @ delta_text ev"
  by (cases ev rule: delta_text.cases)
     (simp_all add: single_event_def Let_def split: option.splits)

lemma single_event_response:
  "response (panel (single_event choice r ev)) = response (panel r) @ delta_text ev"
  by (cases ev rule: delta_text.cases)
     (simp_all add: single_event_def Let_def split: option.splits)

lemma single_event_promptRef:
  "promptRef (panel (single_event choice r ev)) = promptRef (panel r)"
  by (cases ev rule: delta_text.cases)
     (simp_all add: single_event_def Let_def split: option.splits)

lemma single_event_prompt:
  "prompt (panel (single_event choice r ev)) = prompt (panel r)"
  by (cases ev rule: delta_text.cases)
     (simp_all add: single_event_def Let_def split: option.splits)

lemma single_event_got:
  "gotServerUsage (single_event choice r ev) =
     (gotServerUsage r \<or> terminal_usage ev \<noteq> None)"
  by (cases ev rule: delta_text.cases)
     (simp_all add: single_event_def Let_def split: option.splits)

lemma single_event_usage:
  "usage (panel (single_event choice r ev)) =
     (case terminal_usage ev of
        None \<Rightarrow> usage (panel r)
      | Some u \<Rightarrow> Some (reported (modelId choice) u))"
  by (cases ev rule: delta_text.cases)
     (simp_all add: single_event_def Let_def reported_def calculateCost_eq
       split: option.splits)

lemma single_event_store:
  "store (single_event choice r ev) =
     (case terminal_usage ev of
        None \<Rightarrow> store r
      | Some u \<Rightarrow> charge (store r) (reported (modelId choice) u))"
  by (cases ev rule: delta_text.cases)
     (simp_all add: single_event_def Let_def reported_def calculateCost_eq charge_def
       split: option.splits)

lemma usages_Nil: "usages [] = []"
  by (simp add: usages_def map_filter_simps)

lemma usages_Cons:
  "usages (ev # evs) =
     (case terminal_usage ev of None \<Rightarrow> usages evs | Some u \<Rightarrow> u # usages evs)"
  by (cases "terminal_usage ev") (simp_all add: usages_def map_filter_simps)

lemma usages_append: "usages (xs @ ys) = usages xs @ usages ys"
  by (simp add: usages_def map_filter_def)

lemma deltas_Cons: "deltas (ev # evs) = delta_text ev @ deltas evs"
  by (simp add: deltas_def)

lemma single_loop_accumulated:
  "accumulated (foldl (single_event choice) r evs) = accumulated r @ deltas evs"
  by (induction evs arbitrary: r) (simp_all add: deltas_def single_event_accumulated)

lemma single_loop_response:
  "response (panel (foldl (single_event choice) r evs)) = response (panel r) @ deltas evs"
  by (induction evs arbitrary: r) (simp_all add: deltas_def single_event_response)

lemma single_loop_promptRef:
  "promptRef (panel (foldl (single_event choice) r evs)) = promptRef (panel r)"
  by (induction evs arbitrary: r) (simp_all add: single_event_promptRef)

lemma single_loop_got:
  "gotServerUsage (foldl (single_event choice) r evs) = (gotServerUsage r \<or> usages evs \<noteq> [])"
  by (induction evs arbitrary: r)
     (auto simp: usages_Nil usages_Cons single_event_got split: option.splits)

lemma single_loop_usage:
  "usage (panel (foldl (single_event choice) r evs)) =
     (if usages evs = [] then usage (panel r)
      else Some (reported (modelId choice) (last (usages evs))))"
proof (induction evs arbitrary: r rule: rev_induct)
  case Nil
  then show ?case by (simp add: usages_Nil)
next
  case (snoc ev evs)
  show ?case
    by (cases "terminal_usage ev")
       (simp_all add: single_event_usage snoc usages_append usages_Cons usages_Nil)
qed

lemma single_loop_store:
  "store (foldl (single_event choice) r evs) =
     foldl charge (store r) (map (reported (modelId choice)) (usages evs))"
proof (induction evs arbitrary: r rule: rev_induct)
  case Nil
  then show ?case by (simp add: usages_Nil)
next
  case (snoc ev evs)
  show ?case
    by (cases "terminal_usage ev")
       (simp_all add: single_event_store snoc usages_append usages_Cons usages_Nil)
qed

lemma estimateTokens_calculateCost:
  "\<lparr>tokensIn = estimateTokens q, tokensOut = estimateTokens a,
    cost = calculateCost (estimateTokens q) (estimateTokens a) mid, estimated = True\<rparr> =
   estimate mid q a"
  by (simp add: estimate_def estimateTokens_def calculateCost_eq)

text \<open>
  The whole of \<^const>\<open>submit\<close> on a panel that can send: the response, the usage record
  and the store after a stream with events \<open>evs\<close> that ends with \<open>fin\<close>.
\<close>

lemma submit_response:
  "canSend p \<Longrightarrow>
   response (fst (submit choice (evs, fin) (p, s))) =
     (case fin of None \<Rightarrow> deltas evs | Some err \<Rightarrow> error_message err ''Stream failed'')"
  by (cases fin)
     (simp_all add: submit_def Let_def single_fallback_def single_loop_response)

lemma submit_usage:
  "canSend p \<Longrightarrow>
   usage (fst (submit choice (evs, fin) (p, s))) =
     (if usages evs \<noteq> [] then Some (reported (modelId choice) (last (usages evs)))
      else if deltas evs \<noteq> [] then Some (estimate (modelId choice) (prompt p) (deltas evs))
      else None)"
  by (cases fin)
     (simp_all add: submit_def Let_def single_fallback_def single_loop_usage single_loop_got
       single_loop_accumulated single_loop_promptRef estimateTokens_calculateCost)

lemma submit_store:
  "canSend p \<Longrightarrow>
   snd (submit choice (evs, fin) (p, s)) =
     (if usages evs \<noteq> [] then foldl charge s (map (reported (modelId choice)) (usages evs))
      else if deltas evs \<noteq> [] then charge s (estimate (modelId choice) (prompt p) (deltas evs))
      else s)"
  by (cases fin)
     (simp_all add: submit_def Let_def single_fallback_def single_loop_store single_loop_got
       single_loop_accumulated single_loop_promptRef charge_def
       estimateTokens_calculateCost [symmetric])


section \<open>Compare mode: what one submit does\<close>

lemma map_filter_snoc:
  "List.map_filter f (xs @ [x]) =
     (case f x of None \<Rightarrow> List.map_filter f xs | Some y \<Rightarrow> List.map_filter f xs @ [y])"
  by (cases "f x") (simp_all add: map_filter_def)

lemma compare_event_leftAcc:
  "leftAccRef (cpanel (compare_event lft rgt r ev)) = leftAccRef (cpanel r) @ side_delta Left ev"
  by (cases ev)
     (simp_all add: compare_event_def compare_text_def compare_usage_def Let_def
       split: option.splits side.splits)

lemma compare_event_rightAcc:
  "rightAccRef (cpanel (compare_event lft rgt r ev)) =
     rightAccRef (cpanel r) @ side_delta Right ev"
  by (cases ev)
     (simp_all add: compare_event_def compare_text_def compare_usage_def Let_def
       split: option.splits side.splits)

lemma compare_event_promptRef:
  "cpromptRef (cpanel (compare_event lft rgt r ev)) = cpromptRef (cpanel r)"
  by (cases ev)
     (simp_all add: compare_event_def compare_text_def compare_usage_def Let_def
       split: option.splits side.splits)

lemma compare_event_gotLeft:
  "gotLeftUsage (compare_event lft rgt r ev) = (gotLeftUsage r \<or> side_usage Left ev \<noteq> None)"
  by (cases ev)
     (simp_all add: compare_event_def compare_text_def compare_usage_def Let_def side_usage_def
       split: option.splits side.splits)

lemma compare_event_gotRight:
  "gotRightUsage (compare_event lft rgt r ev) = (gotRightUsage r \<or> side_usage Right ev \<noteq> None)"
  by (cases ev)
     (simp_all add: compare_event_def compare_text_def compare_usage_def Let_def side_usage_def
       split: option.splits side.splits)

lemma compare_event_leftUsage:
  "leftUsage (cpanel (compare_event lft rgt r ev)) =
     (case side_usage Left ev of
        None \<Rightarrow> leftUsage (cpanel r)
      | Some u \<Rightarrow> Some (reported (modelId lft) u))"
  by (cases ev)
     (simp_all add: compare_event_def compare_text_def compare_usage_def Let_def side_usage_def
       reported_def calculateCost_eq split: option.splits side.splits)

lemma compare_event_rightUsage:
  "rightUsage (cpanel (compare_event lft rgt r ev)) =
     (case side_usage Right ev of
        None \<Rightarrow> rightUsage (cpanel r)
      | Some u \<Rightarrow> Some (reported (modelId rgt) u))"
  by (cases ev)
     (simp_all add: compare_event_def compare_text_def compare_usage_def Let_def side_usage_def
       reported_def calculateCost_eq split: option.splits side.splits)

lemma compare_event_store:
  "cstore (compare_event lft rgt r ev) =
     (case tagged_usage lft rgt ev of
        None \<Rightarrow> cstore r
      | Some info \<Rightarrow> charge (cstore r) info)"
  by (cases ev)
     (simp_all add: compare_event_def compare_text_def compare_usage_def Let_def tagged_usage_def
       reported_def calculateCost_eq charge_def split: option.splits side.splits)

lemma compare_loop_leftAcc:
  "leftAccRef (cpanel (foldl (compare_event lft rgt) r evs)) =
     leftAccRef (cpanel r) @ side_deltas Left evs"
  by (induction evs arbitrary: r) (simp_all add: side_deltas_def compare_event_leftAcc)

lemma compare_loop_rightAcc:
  "rightAccRef (cpanel (foldl (compare_event lft rgt) r evs)) =
     rightAccRef (cpanel r) @ side_deltas Right evs"
  by (induction evs arbitrary: r) (simp_all add: side_deltas_def compare_event_rightAcc)

lemma compare_loop_promptRef:
  "cpromptRef (cpanel (foldl (compare_event lft rgt) r evs)) = cpromptRef (cpanel r)"
  by (induction evs arbitrary: r) (simp_all add: compare_event_promptRef)

lemma compare_loop_gotLeft:
  "gotLeftUsage (foldl (compare_event lft rgt) r evs) =
     (gotLeftUsage r \<or> side_usages Left evs \<noteq> [])"
proof (induction evs arbitrary: r rule: rev_induct)
  case Nil
  then show ?case by (simp add: side_usages_def map_filter_simps)
next
  case (snoc ev evs)
  show ?case
    by (cases "side_usage Left ev")
       (simp_all add: compare_event_gotLeft snoc side_usages_def map_filter_snoc)
qed

lemma compare_loop_gotRight:
  "gotRightUsage (foldl (compare_event lft rgt) r evs) =
     (gotRightUsage r \<or> side_usages Right evs \<noteq> [])"
proof (induction evs arbitrary: r rule: rev_induct)
  case Nil
  then show ?case by (simp add: side_usages_def map_filter_simps)
next
  case (snoc ev evs)
  show ?case
    by (cases "side_usage Right ev")
       (simp_all add: compare_event_gotRight snoc side_usages_def map_filter_snoc)
qed

lemma compare_loop_leftUsage:
  "leftUsage (cpanel (foldl (compare_event lft rgt) r evs)) =
     (if side_usages Left evs = [] then leftUsage (cpanel r)
      else Some (reported (modelId lft) (last (side_usages Left evs))))"
proof (induction evs arbitrary: r rule: rev_induct)
  case Nil
  then show ?case by (simp add: side_usages_def map_filter_simps)
next
  case (snoc ev evs)
  show ?case
    by (cases "side_usage Left ev")
       (simp_all add: compare_event_leftUsage snoc side_usages_def map_filter_snoc)
qed

lemma compare_loop_rightUsage:
  "rightUsage (cpanel (foldl (compare_event lft rgt) r evs)) =
     (if side_usages Right evs = [] then rightUsage (cpanel r)
      else Some (reported (modelId rgt) (last (side_usages Right evs))))"
proof (induction evs arbitrary: r rule: rev_induct)
  case Nil
  then show ?case by (simp add: side_usages_def map_filter_simps)
next
  case (snoc ev evs)
  show ?case
    by (cases "side_usage Right ev")
       (simp_all add: compare_event_rightUsage snoc side_usages_def map_filter_snoc)
qed

lemma compare_loop_store:
  "cstore (foldl (compare_event lft rgt) r evs) =
     foldl charge (cstore r) (tagged_usages lft rgt evs)"
proof (induction evs arbitrary: r rule: rev_induct)
  case Nil
  then show ?case by (simp add: tagged_usages_def map_filter_simps)
next
  case (snoc ev evs)
  show ?case
    by (cases "tagged_usage lft rgt ev")
       (simp_all add: compare_event_store snoc tagged_usages_def map_filter_snoc)
qed


lemma compare_fallback_left_fields:
  "rightAccRef (cpanel (compare_fallback_left lft r)) = rightAccRef (cpanel r)"
  "cpromptRef (cpanel (compare_fallback_left lft r)) = cpromptRef (cpanel r)"
  "gotRightUsage (compare_fallback_left lft r) = gotRightUsage r"
  "rightUsage (cpanel (compare_fallback_left lft r)) = rightUsage (cpanel r)"
  by (simp_all add: compare_fallback_left_def Let_def)

lemma compare_fallback_left_usage:
  "leftUsage (cpanel (compare_fallback_left lft r)) =
     (if \<not> gotLeftUsage r \<and> leftAccRef (cpanel r) \<noteq> []
      then Some (estimate (modelId lft) (cpromptRef (cpanel r)) (leftAccRef (cpanel r)))
      else leftUsage (cpanel r))"
  by (simp add: compare_fallback_left_def Let_def estimateTokens_calculateCost)

lemma compare_fallback_left_store:
  "cstore (compare_fallback_left lft r) =
     (if \<not> gotLeftUsage r \<and> leftAccRef (cpanel r) \<noteq> []
      then charge (cstore r)
             (estimate (modelId lft) (cpromptRef (cpanel r)) (leftAccRef (cpanel r)))
      else cstore r)"
  by (simp add: compare_fallback_left_def Let_def charge_def
      estimateTokens_calculateCost [symmetric])

lemma compare_fallback_right_usage:
  "rightUsage (cpanel (compare_fallback_right rgt r)) =
     (if \<not> gotRightUsage r \<and> rightAccRef (cpanel r) \<noteq> []
      then Some (estimate (modelId rgt) (cpromptRef (cpanel r)) (rightAccRef (cpanel r)))
      else rightUsage (cpanel r))"
  by (simp add: compare_fallback_right_def Let_def estimateTokens_calculateCost)

lemma compare_fallback_right_store:
  "cstore (compare_fallback_right rgt r) =
     (if \<not> gotRightUsage r \<and> rightAccRef (cpanel r) \<noteq> []
      then charge (cstore r)
             (estimate (modelId rgt) (cpromptRef (cpanel r)) (rightAccRef (cpanel r)))
      else cstore r)"
  by (simp add: compare_fallback_right_def Let_def charge_def
      estimateTokens_calculateCost [symmetric])

lemma compare_fallback_right_leftUsage:
  "leftUsage (cpanel (compare_fallback_right rgt r)) = leftUsage (cpanel r)"
  by (simp add: compare_fallback_right_def Let_def)

text \<open>
  The whole of \<^const>\<open>compare_submit\<close> on a panel that can send: the usage record of
  each side and the store.
\<close>

lemma compare_submit_leftUsage:
  "trim (cprompt p) \<noteq> [] \<Longrightarrow> \<not> cbusy p \<Longrightarrow>
   leftUsage (fst (compare_submit lft rgt (evs, fin) (p, s))) =
     (if side_usages Left evs \<noteq> []
      then Some (reported (modelId lft) (last (side_usages Left evs)))
      else if side_deltas Left evs \<noteq> []
      then Some (estimate (modelId lft) (cprompt p) (side_deltas Left evs))
      else None)"
  by (cases fin)
     (simp_all add: compare_submit_def Let_def compare_fallback_right_leftUsage
       compare_fallback_left_usage compare_loop_gotLeft compare_loop_leftAcc
       compare_loop_promptRef compare_loop_leftUsage)

lemma compare_submit_rightUsage:
  "trim (cprompt p) \<noteq> [] \<Longrightarrow> \<not> cbusy p \<Longrightarrow>
   rightUsage (fst (compare_submit lft rgt (evs, fin) (p, s))) =
     (if side_usages Right evs \<noteq> []
      then Some (reported (modelId rgt) (last (side_usages Right evs)))
      else if side_deltas Right evs \<noteq> []
      then Some (estimate (modelId rgt) (cprompt p) (side_deltas Right evs))
      else None)"
  by (cases fin)
     (simp_all add: compare_submit_def Let_def compare_fallback_right_usage
       compare_fallback_left_fields compare_loop_gotRight compare_loop_rightAcc
       compare_loop_promptRef compare_loop_rightUsage)

lemma compare_submit_store:
  "trim (cprompt p) \<noteq> [] \<Longrightarrow> \<not> cbusy p \<Longrightarrow>
   snd (compare_submit lft rgt (evs, fin) (p, s)) =
     (let s1 = foldl charge s (tagged_usages lft rgt evs);
          s2 = (if side_usages Left evs = [] \<and> side_deltas Left evs \<noteq> []
                then charge s1 (estimate (modelId lft) (cprompt p) (side_deltas Left evs))
                else s1)
      in if side_usages Right evs = [] \<and> side_deltas Right evs \<noteq> []
         then charge s2 (estimate (modelId rgt) (cprompt p) (side_deltas Right evs))
         else s2)"
  by (cases fin)
     (simp_all add: compare_submit_def Let_def compare_fallback_right_store
       compare_fallback_left_store compare_fallback_left_fields compare_loop_gotLeft
       compare_loop_gotRight compare_loop_leftAcc compare_loop_rightAcc
       compare_loop_promptRef compare_loop_store)


section \<open>Server-reported and estimated usage\<close>

lemma demo_canSend: "canSend demo_panel"
  by (simp add: canSend_def demo_panel_def trim_def is_space_def)

text \<open>A prompt of a single no-break space is trimmed to nothing and cannot be sent.\<close>

lemma no_break_space_prompt_refused: "\<not> canSend (demo_panel\<lparr>prompt := [CHR 0xA0]\<rparr>)"
  by (simp add: canSend_def demo_panel_def trim_def is_space_def)

lemma demo_compare_canSend: "trim (cprompt demo_compare) \<noteq> [] \<and> \<not> cbusy demo_compare"
  by (simp add: demo_compare_def trim_def is_space_def)

lemma getPricing_default:
  "getPricing (modelId defaultChoice) = Rate \<lparr>input' = 1, output' = 3\<rparr>"
  by (simp add: getPricing_def PRICING_at_def Object_prototype_def defaultChoice_def PRICING_def
      FALLBACK_PRICING_RATE_def nullish_def)

lemma getPricing_gpt4o:
  "getPricing (modelId gpt4o) = Rate \<lparr>input' = 5 / 2, output' = 10\<rparr>"
  by (simp add: getPricing_def PRICING_at_def gpt4o_def PRICING_def nullish_def)

text \<open>
  The usage record after a stream whose events contain exactly one usage-bearing terminal
  event for a unit (a \<^verbatim>\<open>done\<close> or \<^verbatim>\<open>complete\<close> with usage; in compare mode one tagged
  with the side): it is not estimated, its token counts are \<^verbatim>\<open>usage.prompt_tokens\<close> and
  \<^verbatim>\<open>usage.completion_tokens\<close> (\<open>0\<close> for a count that is missing, as \<^verbatim>\<open>?? 0\<close> gives),
  and its cost is \<open>(tokensIn * input + tokensOut * output) / 1e6\<close> at the rate that the
  lookup of the unit's model id gives, and \<^verbatim>\<open>NaN\<close> when the lookup gives a member of the
  prototype. This holds however the stream ends, for the single panel and for each side of
  the compare panel.
\<close>

lemma server_usage_record:
  "(canSend p \<and> usages evs = [u] \<longrightarrow>
      usage (fst (submit choice (evs, fin) (p, s))) =
        Some \<lparr>tokensIn = nullish (prompt_tokens u) 0,
              tokensOut = nullish (completion_tokens u) 0,
              cost = (case getPricing (modelId choice) of
                        Rate r \<Rightarrow>
                          Num ((nullish (prompt_tokens u) 0 * input' r +
                                nullish (completion_tokens u) 0 * output' r) / 1000000)
                      | Member \<Rightarrow> NaN),
              estimated = False\<rparr>) \<and>
   (trim (cprompt cp) \<noteq> [] \<and> \<not> cbusy cp \<and> side_usages Left evs = [u] \<longrightarrow>
      leftUsage (fst (compare_submit lft rgt (evs, fin) (cp, s))) =
        Some \<lparr>tokensIn = nullish (prompt_tokens u) 0,
              tokensOut = nullish (completion_tokens u) 0,
              cost = (case getPricing (modelId lft) of
                        Rate r \<Rightarrow>
                          Num ((nullish (prompt_tokens u) 0 * input' r +
                                nullish (completion_tokens u) 0 * output' r) / 1000000)
                      | Member \<Rightarrow> NaN),
              estimated = False\<rparr>) \<and>
   (trim (cprompt cp) \<noteq> [] \<and> \<not> cbusy cp \<and> side_usages Right evs = [u] \<longrightarrow>
      rightUsage (fst (compare_submit lft rgt (evs, fin) (cp, s))) =
        Some \<lparr>tokensIn = nullish (prompt_tokens u) 0,
              tokensOut = nullish (completion_tokens u) 0,
              cost = (case getPricing (modelId rgt) of
                        Rate r \<Rightarrow>
                          Num ((nullish (prompt_tokens u) 0 * input' r +
                                nullish (completion_tokens u) 0 * output' r) / 1000000)
                      | Member \<Rightarrow> NaN),
              estimated = False\<rparr>)"
proof -
  have one: "usage (fst (submit choice (evs, fin) (p, s))) = Some (reported (modelId choice) u)"
    if "canSend p" "usages evs = [u]"
    using that by (simp add: submit_usage)
  have lside: "leftUsage (fst (compare_submit lft rgt (evs, fin) (cp, s))) =
      Some (reported (modelId lft) u)"
    if "trim (cprompt cp) \<noteq> []" "\<not> cbusy cp" "side_usages Left evs = [u]"
    using that by (simp add: compare_submit_leftUsage)
  have rside: "rightUsage (fst (compare_submit lft rgt (evs, fin) (cp, s))) =
      Some (reported (modelId rgt) u)"
    if "trim (cprompt cp) \<noteq> []" "\<not> cbusy cp" "side_usages Right evs = [u]"
    using that by (simp add: compare_submit_rightUsage)
  show ?thesis
    using one lside rside by (simp add: reported_def)
qed

lemma server_usage_record_example:
  "(canSend demo_panel \<and>
    usages [Delta (Some ''Hi'') None, Delta (Some '' there'') None, Done None (Some demo_usage)]
      = [demo_usage]) \<and>
   usage (fst (submit defaultChoice
      ([Delta (Some ''Hi'') None, Delta (Some '' there'') None, Done None (Some demo_usage)],
       None) (demo_panel, initialState))) =
     Some \<lparr>tokensIn = 10, tokensOut = 5, cost = Num (1 / 40000), estimated = False\<rparr> \<and>
   (trim (cprompt demo_compare) \<noteq> [] \<and> \<not> cbusy demo_compare \<and>
    side_usages Left [Done (Some Left) (Some demo_usage), Complete (Some Right) (Some demo_usage)]
      = [demo_usage] \<and>
    side_usages Right [Done (Some Left) (Some demo_usage), Complete (Some Right) (Some demo_usage)]
      = [demo_usage]) \<and>
   leftUsage (fst (compare_submit defaultChoice gpt4o
      ([Done (Some Left) (Some demo_usage), Complete (Some Right) (Some demo_usage)], None)
      (demo_compare, initialState))) =
     Some \<lparr>tokensIn = 10, tokensOut = 5, cost = Num (1 / 40000), estimated = False\<rparr> \<and>
   rightUsage (fst (compare_submit defaultChoice gpt4o
      ([Done (Some Left) (Some demo_usage), Complete (Some Right) (Some demo_usage)], None)
      (demo_compare, initialState))) =
     Some \<lparr>tokensIn = 10, tokensOut = 5, cost = Num (3 / 40000), estimated = False\<rparr>"
proof -
  have h1: "usages [Delta (Some ''Hi'') None, Delta (Some '' there'') None,
      Done None (Some demo_usage)] = [demo_usage]"
    by (simp add: usages_def map_filter_simps)
  have h2: "side_usages Left [Done (Some Left) (Some demo_usage),
      Complete (Some Right) (Some demo_usage)] = [demo_usage]"
    by (simp add: side_usages_def side_usage_def map_filter_simps)
  have h3: "side_usages Right [Done (Some Left) (Some demo_usage),
      Complete (Some Right) (Some demo_usage)] = [demo_usage]"
    by (simp add: side_usages_def side_usage_def map_filter_simps)
  show ?thesis
    using server_usage_record [of demo_panel
        "[Delta (Some ''Hi'') None, Delta (Some '' there'') None, Done None (Some demo_usage)]"
        demo_usage defaultChoice None initialState demo_compare defaultChoice gpt4o]
      server_usage_record [of demo_panel
        "[Done (Some Left) (Some demo_usage), Complete (Some Right) (Some demo_usage)]"
        demo_usage defaultChoice None initialState demo_compare defaultChoice gpt4o]
      demo_canSend demo_compare_canSend h1 h2 h3
    by (simp add: getPricing_default getPricing_gpt4o nullish_def demo_usage_def)
qed

text \<open>
  C2 fails on the code for a model id that is the name of a member of
  \<^verbatim>\<open>Object.prototype\<close>. The pricing table has no entry for \<^verbatim>\<open>constructor\<close>, so the rate
  of the id is the fallback rate and the cost of 10 and 5 tokens is
  \<open>(10 * 1 + 5 * 3) / 1e6\<close>. The code's lookup finds the inherited function, does not
  fall back, and computes \<^verbatim>\<open>NaN\<close>: the single stream with one \<^verbatim>\<open>done\<close> event that carries
  this usage leaves a usage record with the cost \<^verbatim>\<open>NaN\<close> and turns the session cost into
  \<^verbatim>\<open>NaN\<close>.
\<close>

theorem server_usage_cost_for_inherited_name:
  "usages [Done None (Some demo_usage)] = [demo_usage] \<and>
   map_of PRICING (modelId inherited_choice) = None \<and>
   usage (fst (submit inherited_choice ([Done None (Some demo_usage)], None)
      (demo_panel, initialState))) =
     Some \<lparr>tokensIn = 10, tokensOut = 5, cost = NaN, estimated = False\<rparr> \<and>
   sessionCost (snd (submit inherited_choice ([Done None (Some demo_usage)], None)
      (demo_panel, initialState))) = NaN \<and>
   Num ((10 * input' FALLBACK_PRICING_RATE + 5 * output' FALLBACK_PRICING_RATE) / 1000000) =
     Num (1 / 40000)"
proof -
  have u: "usages [Done None (Some demo_usage)] = [demo_usage]"
    by (simp add: usages_def map_filter_simps)
  have absent: "map_of PRICING (modelId inherited_choice) = None"
    by (simp add: inherited_choice_def PRICING_def)
  have found: "getPricing (modelId inherited_choice) = Member"
    using absent
    by (simp add: getPricing_def PRICING_at_def Object_prototype_def inherited_choice_def
        nullish_def)
  have r: "reported (modelId inherited_choice) demo_usage =
      \<lparr>tokensIn = 10, tokensOut = 5, cost = NaN, estimated = False\<rparr>"
    by (simp add: reported_def found demo_usage_def nullish_def)
  show ?thesis
    by (simp add: submit_usage submit_store demo_canSend u absent r charge_def addUsage_def
        initialState_def FALLBACK_PRICING_RATE_def)
qed

text \<open>
  C3. When the events of a stream contain no usage-bearing terminal event for a unit and the
  text accumulated from its deltas is not empty, the unit's usage record after the submit is
  estimated, with \<open>tokensIn = ceil (len prompt / 4)\<close> and
  \<open>tokensOut = ceil (len accumulated / 4)\<close>. Its cost is the cost of these counts at the
  rate that the lookup of the unit's model id gives, and \<^verbatim>\<open>NaN\<close> when the lookup gives a
  member of the prototype. This holds however the stream ends, for the single panel and for
  each side of the compare panel.
\<close>

theorem estimated_usage_without_server_usage:
  "(canSend p \<and> usages evs = [] \<and> deltas evs \<noteq> [] \<longrightarrow>
      usage (fst (submit choice (evs, fin) (p, s))) =
        Some \<lparr>tokensIn = of_int \<lceil>real (length (prompt p)) / 4\<rceil>,
              tokensOut = of_int \<lceil>real (length (deltas evs)) / 4\<rceil>,
              cost = (case getPricing (modelId choice) of
                        Rate r \<Rightarrow>
                          Num ((of_int \<lceil>real (length (prompt p)) / 4\<rceil> * input' r +
                                of_int \<lceil>real (length (deltas evs)) / 4\<rceil> * output' r)
                               / 1000000)
                      | Member \<Rightarrow> NaN),
              estimated = True\<rparr>) \<and>
   (trim (cprompt cp) \<noteq> [] \<and> \<not> cbusy cp \<and> side_usages Left evs = [] \<and>
    side_deltas Left evs \<noteq> [] \<longrightarrow>
      leftUsage (fst (compare_submit lft rgt (evs, fin) (cp, s))) =
        Some \<lparr>tokensIn = of_int \<lceil>real (length (cprompt cp)) / 4\<rceil>,
              tokensOut = of_int \<lceil>real (length (side_deltas Left evs)) / 4\<rceil>,
              cost = (case getPricing (modelId lft) of
                        Rate r \<Rightarrow>
                          Num ((of_int \<lceil>real (length (cprompt cp)) / 4\<rceil> * input' r +
                                of_int \<lceil>real (length (side_deltas Left evs)) / 4\<rceil> * output' r)
                               / 1000000)
                      | Member \<Rightarrow> NaN),
              estimated = True\<rparr>) \<and>
   (trim (cprompt cp) \<noteq> [] \<and> \<not> cbusy cp \<and> side_usages Right evs = [] \<and>
    side_deltas Right evs \<noteq> [] \<longrightarrow>
      rightUsage (fst (compare_submit lft rgt (evs, fin) (cp, s))) =
        Some \<lparr>tokensIn = of_int \<lceil>real (length (cprompt cp)) / 4\<rceil>,
              tokensOut = of_int \<lceil>real (length (side_deltas Right evs)) / 4\<rceil>,
              cost = (case getPricing (modelId rgt) of
                        Rate r \<Rightarrow>
                          Num ((of_int \<lceil>real (length (cprompt cp)) / 4\<rceil> * input' r +
                                of_int \<lceil>real (length (side_deltas Right evs)) / 4\<rceil> * output' r)
                               / 1000000)
                      | Member \<Rightarrow> NaN),
              estimated = True\<rparr>)"
proof -
  have one: "usage (fst (submit choice (evs, fin) (p, s))) =
      Some (estimate (modelId choice) (prompt p) (deltas evs))"
    if "canSend p" "usages evs = []" "deltas evs \<noteq> []"
    using that by (simp add: submit_usage)
  have lside: "leftUsage (fst (compare_submit lft rgt (evs, fin) (cp, s))) =
      Some (estimate (modelId lft) (cprompt cp) (side_deltas Left evs))"
    if "trim (cprompt cp) \<noteq> []" "\<not> cbusy cp" "side_usages Left evs = []"
      "side_deltas Left evs \<noteq> []"
    using that by (simp add: compare_submit_leftUsage)
  have rside: "rightUsage (fst (compare_submit lft rgt (evs, fin) (cp, s))) =
      Some (estimate (modelId rgt) (cprompt cp) (side_deltas Right evs))"
    if "trim (cprompt cp) \<noteq> []" "\<not> cbusy cp" "side_usages Right evs = []"
      "side_deltas Right evs \<noteq> []"
    using that by (simp add: compare_submit_rightUsage)
  show ?thesis
    using one lside rside by (simp add: estimate_def)
qed


theorem estimated_usage_without_server_usage_witness:
  "(canSend demo_panel \<and> usages [Delta (Some ''partial'') None] = [] \<and>
    deltas [Delta (Some ''partial'') None] \<noteq> []) \<and>
   usage (fst (submit defaultChoice ([Delta (Some ''partial'') None], Some (JsError ''boom''))
      (demo_panel, initialState))) =
     Some \<lparr>tokensIn = 2, tokensOut = 2, cost = Num (1 / 125000), estimated = True\<rparr> \<and>
   (trim (cprompt demo_compare) \<noteq> [] \<and> \<not> cbusy demo_compare \<and>
    side_usages Left [Delta (Some ''one'') (Some Left), Delta (Some ''three'') (Some Right)] = [] \<and>
    side_deltas Left [Delta (Some ''one'') (Some Left), Delta (Some ''three'') (Some Right)] \<noteq> [] \<and>
    side_usages Right [Delta (Some ''one'') (Some Left), Delta (Some ''three'') (Some Right)] = [] \<and>
    side_deltas Right [Delta (Some ''one'') (Some Left), Delta (Some ''three'') (Some Right)] \<noteq> []) \<and>
   leftUsage (fst (compare_submit defaultChoice gpt4o
      ([Delta (Some ''one'') (Some Left), Delta (Some ''three'') (Some Right)], None)
      (demo_compare, initialState))) =
     Some \<lparr>tokensIn = 2, tokensOut = 1, cost = Num (1 / 200000), estimated = True\<rparr> \<and>
   rightUsage (fst (compare_submit defaultChoice gpt4o
      ([Delta (Some ''one'') (Some Left), Delta (Some ''three'') (Some Right)], None)
      (demo_compare, initialState))) =
     Some \<lparr>tokensIn = 2, tokensOut = 2, cost = Num (1 / 40000), estimated = True\<rparr>"
proof -
  have h1: "usages [Delta (Some ''partial'') None] = []"
    "deltas [Delta (Some ''partial'') None] = ''partial''"
    by (simp_all add: usages_def map_filter_simps deltas_def)
  have h2: "side_usages Left [Delta (Some ''one'') (Some Left),
        Delta (Some ''three'') (Some Right)] = []"
    "side_usages Right [Delta (Some ''one'') (Some Left),
        Delta (Some ''three'') (Some Right)] = []"
    by (simp_all add: side_usages_def side_usage_def map_filter_simps)
  have h3: "side_deltas Left [Delta (Some ''one'') (Some Left),
        Delta (Some ''three'') (Some Right)] = ''one''"
    "side_deltas Right [Delta (Some ''one'') (Some Left),
        Delta (Some ''three'') (Some Right)] = ''three''"
    by (simp_all add: side_deltas_def)
  have len: "length (prompt demo_panel) = 5" "length (cprompt demo_compare) = 5"
    by (simp_all add: demo_panel_def demo_compare_def)
  show ?thesis
    using estimated_usage_without_server_usage [of demo_panel
        "[Delta (Some ''partial'') None]" defaultChoice "Some (JsError ''boom'')" initialState
        demo_compare defaultChoice gpt4o]
      estimated_usage_without_server_usage [of demo_panel
        "[Delta (Some ''one'') (Some Left), Delta (Some ''three'') (Some Right)]"
        defaultChoice None initialState demo_compare defaultChoice gpt4o]
      demo_canSend demo_compare_canSend
    by (simp add: h1 h2 h3 len getPricing_default getPricing_gpt4o)
qed


section \<open>Failed streams in single mode\<close>

text \<open>
  C4, as stated, fails. A stream that throws after \<^verbatim>\<open>delta("partial")\<close> leaves the error
  message in the response, not the partial text: the \<^verbatim>\<open>catch\<close> block calls
  \<^verbatim>\<open>setResponse\<close> with the message unconditionally.
\<close>

theorem partial_text_replaced_by_thrown_error:
  "response (fst (submit defaultChoice ([Delta (Some ''partial'') None], Some (JsError ''boom''))
      (demo_panel, initialState))) = ''boom'' \<and>
   response (fst (submit defaultChoice ([Delta (Some ''partial'') None], Some (JsError ''boom''))
      (demo_panel, initialState))) \<noteq> ''partial''"
  by (simp add: submit_response demo_canSend error_message_def)

text \<open>
  C4, amended. In single mode an \<^verbatim>\<open>error\<close> event is ignored: after a stream that does not
  throw, the response is the accumulated delta text, and an \<^verbatim>\<open>error\<close> event adds
  nothing to it. When the stream throws, the response is the message of the thrown error
  (\<^verbatim>\<open>"Stream failed"\<close> for a thrown value that is not an \<^verbatim>\<open>Error\<close>), whether or not text had
  streamed.
\<close>

theorem single_response_after_stream:
  "canSend p \<Longrightarrow>
   response (fst (submit choice (evs, None) (p, s))) = deltas evs \<and>
   deltas (evs @ [Error msg sd]) = deltas evs \<and>
   response (fst (submit choice (evs, Some (JsError m)) (p, s))) = m \<and>
   response (fst (submit choice (evs, Some NonError) (p, s))) = ''Stream failed''"
proof -
  assume can: "canSend p"
  have ignored: "delta_text (Error msg sd) = []"
    by simp
  have quiet: "response (fst (submit choice (evs, None) (p, s))) = deltas evs"
    using can by (simp add: submit_response)
  have caught: "response (fst (submit choice (evs, Some err) (p, s))) =
      error_message err ''Stream failed''" for err
    using can by (simp add: submit_response)
  show ?thesis
    using quiet caught [of "JsError m"] caught [of NonError] ignored
    by (simp add: error_message_def deltas_def)
qed

theorem single_response_after_stream_witness:
  "canSend demo_panel \<and>
   response (fst (submit defaultChoice
      ([Delta (Some ''partial'') None, Error (Some ''boom'') None], None)
      (demo_panel, initialState))) = ''partial'' \<and>
   response (fst (submit defaultChoice ([Error (Some ''boom'') None], None)
      (demo_panel, initialState))) = [] \<and>
   response (fst (submit defaultChoice ([Delta (Some ''partial'') None], Some (JsError ''boom''))
      (demo_panel, initialState))) = ''boom'' \<and>
   response (fst (submit defaultChoice ([Delta (Some ''partial'') None], Some NonError)
      (demo_panel, initialState))) = ''Stream failed''"
  using single_response_after_stream [OF demo_canSend,
      of defaultChoice "[Delta (Some ''partial'') None, Error (Some ''boom'') None]" initialState
      "Some ''boom''" None "''boom''"]
    single_response_after_stream [OF demo_canSend,
      of defaultChoice "[Error (Some ''boom'') None]" initialState "Some ''boom''" None "''boom''"]
    single_response_after_stream [OF demo_canSend,
      of defaultChoice "[Delta (Some ''partial'') None]" initialState "Some ''boom''" None
      "''boom''"]
    demo_canSend
  by (simp add: deltas_def)

text \<open>
  C6, as stated, fails. A stream that delivers \<^verbatim>\<open>delta("partial")\<close> and then ends with an
  \<^verbatim>\<open>error\<close> event, without usage-bearing terminal event, does produce a usage record, an
  estimated one, and the session totals grow by it.
\<close>

theorem failed_stream_with_text_is_charged:
  "usage (fst (submit defaultChoice
      ([Delta (Some ''partial'') None, Error (Some ''boom'') None], None)
      (demo_panel, initialState))) =
     Some \<lparr>tokensIn = 2, tokensOut = 2, cost = Num (1 / 125000), estimated = True\<rparr> \<and>
   sessionTokensIn (snd (submit defaultChoice
      ([Delta (Some ''partial'') None, Error (Some ''boom'') None], None)
      (demo_panel, initialState))) = 2 \<and>
   sessionTokensOut (snd (submit defaultChoice
      ([Delta (Some ''partial'') None, Error (Some ''boom'') None], None)
      (demo_panel, initialState))) = 2 \<and>
   sessionCost (snd (submit defaultChoice
      ([Delta (Some ''partial'') None, Error (Some ''boom'') None], None)
      (demo_panel, initialState))) = Num (1 / 125000) \<and>
   sessionTokensIn initialState = 0 \<and> sessionTokensOut initialState = 0 \<and>
   sessionCost initialState = Num 0"
proof -
  have u: "usages [Delta (Some ''partial'') None, Error (Some ''boom'') None] = []"
    by (simp add: usages_def map_filter_simps)
  have d: "deltas [Delta (Some ''partial'') None, Error (Some ''boom'') None] = ''partial''"
    by (simp add: deltas_def)
  have e: "estimate (modelId defaultChoice) (prompt demo_panel) ''partial'' =
      \<lparr>tokensIn = 2, tokensOut = 2, cost = Num (1 / 125000), estimated = True\<rparr>"
    by (simp add: estimate_def getPricing_default demo_panel_def)
  show ?thesis
    by (simp add: submit_usage submit_store demo_canSend u d e charge_def addUsage_def
        initialState_def)
qed

text \<open>
  C6, amended. A single-mode stream without usage-bearing terminal event, however it ends
  (with an \<^verbatim>\<open>error\<close> event or by throwing), produces no usage record and leaves the store
  as it was exactly when no delta text had accumulated. When text had accumulated, the
  \<^verbatim>\<open>finally\<close> block produces an estimated usage record and adds it to the session totals.
\<close>

theorem failed_stream_accounting:
  "canSend p \<Longrightarrow> usages evs = [] \<Longrightarrow>
   (deltas evs = [] \<longrightarrow>
      usage (fst (submit choice (evs, fin) (p, s))) = None \<and>
      snd (submit choice (evs, fin) (p, s)) = s) \<and>
   (deltas evs \<noteq> [] \<longrightarrow>
      map_option estimated (usage (fst (submit choice (evs, fin) (p, s)))) = Some True \<and>
      sessionTokensIn (snd (submit choice (evs, fin) (p, s))) =
        sessionTokensIn s + of_int \<lceil>real (length (prompt p)) / 4\<rceil> \<and>
      sessionTokensOut (snd (submit choice (evs, fin) (p, s))) =
        sessionTokensOut s + of_int \<lceil>real (length (deltas evs)) / 4\<rceil> \<and>
      sessionCost (snd (submit choice (evs, fin) (p, s))) =
        js_add (sessionCost s)
          (case getPricing (modelId choice) of
             Rate r \<Rightarrow>
               Num ((of_int \<lceil>real (length (prompt p)) / 4\<rceil> * input' r +
                     of_int \<lceil>real (length (deltas evs)) / 4\<rceil> * output' r) / 1000000)
           | Member \<Rightarrow> NaN))"
proof -
  assume can: "canSend p" and none: "usages evs = []"
  have silent: "usage (fst (submit choice (evs, fin) (p, s))) = None"
    "snd (submit choice (evs, fin) (p, s)) = s"
    if "deltas evs = []"
    using can none that by (simp_all add: submit_usage submit_store)
  have charged: "usage (fst (submit choice (evs, fin) (p, s))) =
      Some (estimate (modelId choice) (prompt p) (deltas evs))"
    "snd (submit choice (evs, fin) (p, s)) =
      charge s (estimate (modelId choice) (prompt p) (deltas evs))"
    if "deltas evs \<noteq> []"
    using can none that by (simp_all add: submit_usage submit_store)
  show ?thesis
    using silent charged by (simp add: estimate_def charge_def addUsage_def)
qed

theorem failed_stream_accounting_witness:
  "(canSend demo_panel \<and> usages [Error (Some ''boom'') None] = [] \<and>
    deltas [Error (Some ''boom'') None] = []) \<and>
   usage (fst (submit defaultChoice ([Error (Some ''boom'') None], None)
      (demo_panel, initialState))) = None \<and>
   snd (submit defaultChoice ([Error (Some ''boom'') None], None) (demo_panel, initialState))
     = initialState \<and>
   (usages [Delta (Some ''partial'') None] = [] \<and> deltas [Delta (Some ''partial'') None] \<noteq> []) \<and>
   map_option estimated (usage (fst (submit defaultChoice
      ([Delta (Some ''partial'') None], Some (JsError ''boom'')) (demo_panel, initialState))))
     = Some True \<and>
   sessionTokensIn (snd (submit defaultChoice
      ([Delta (Some ''partial'') None], Some (JsError ''boom'')) (demo_panel, initialState))) = 2 \<and>
   sessionTokensOut (snd (submit defaultChoice
      ([Delta (Some ''partial'') None], Some (JsError ''boom'')) (demo_panel, initialState))) = 2 \<and>
   sessionCost (snd (submit defaultChoice
      ([Delta (Some ''partial'') None], Some (JsError ''boom'')) (demo_panel, initialState)))
     = Num (1 / 125000)"
proof -
  have u: "usages [Error (Some ''boom'') None] = []" "usages [Delta (Some ''partial'') None] = []"
    by (simp_all add: usages_def map_filter_simps)
  have d: "deltas [Error (Some ''boom'') None] = []"
    "deltas [Delta (Some ''partial'') None] = ''partial''"
    by (simp_all add: deltas_def)
  have len: "length (prompt demo_panel) = 5"
    by (simp add: demo_panel_def)
  have z: "sessionTokensIn initialState = 0" "sessionTokensOut initialState = 0"
    "sessionCost initialState = Num 0"
    by (simp_all add: initialState_def)
  show ?thesis
    using failed_stream_accounting [OF demo_canSend u(1), of defaultChoice None initialState]
      failed_stream_accounting [OF demo_canSend u(2), of defaultChoice "Some (JsError ''boom'')"
        initialState]
      demo_canSend
    by (simp add: u d len z getPricing_default)
qed


section \<open>No double counting\<close>

text \<open>
  C7, as stated, fails: the session totals can be updated more than once for a unit in one
  stream. A single-mode stream with a \<^verbatim>\<open>done\<close> and a \<^verbatim>\<open>complete\<close> event that both carry
  usage adds the usage to the totals twice; nothing in the loop skips a second terminal
  event.
\<close>

theorem two_terminal_events_charged_twice:
  "sessionTokensIn (snd (submit defaultChoice
      ([Done None (Some demo_usage), Complete None (Some demo_usage)], None)
      (demo_panel, initialState))) = 20 \<and>
   sessionTokensOut (snd (submit defaultChoice
      ([Done None (Some demo_usage), Complete None (Some demo_usage)], None)
      (demo_panel, initialState))) = 10 \<and>
   usage (fst (submit defaultChoice
      ([Done None (Some demo_usage), Complete None (Some demo_usage)], None)
      (demo_panel, initialState))) =
     Some \<lparr>tokensIn = 10, tokensOut = 5, cost = Num (1 / 40000), estimated = False\<rparr> \<and>
   sessionTokensIn initialState = 0 \<and> sessionTokensOut initialState = 0"
proof -
  have u: "usages [Done None (Some demo_usage), Complete None (Some demo_usage)] =
      [demo_usage, demo_usage]"
    by (simp add: usages_def map_filter_simps)
  have r: "reported (modelId defaultChoice) demo_usage =
      \<lparr>tokensIn = 10, tokensOut = 5, cost = Num (1 / 40000), estimated = False\<rparr>"
    by (simp add: reported_def getPricing_default demo_usage_def nullish_def)
  show ?thesis
    by (simp add: submit_usage submit_store demo_canSend u r charge_def addUsage_def
        initialState_def)
qed

text \<open>
  C7, amended. Every usage-bearing terminal event of a unit adds its usage to the session
  totals once, and the end-of-stream estimate of a unit is added only when the stream had
  no usage-bearing terminal event for that unit. So a unit never contributes both
  server-reported and estimated usage, and the totals are updated at most once for a unit
  whose stream carries at most one usage-bearing terminal event. The store after a submit
  is determined as follows, for the single panel and for the compare panel (where the events
  of the two sides are charged in the order of arrival and the fallbacks run left, then
  right).
\<close>

theorem fallback_skipped_after_server_usage:
  "(canSend p \<longrightarrow>
      snd (submit choice (evs, fin) (p, s)) =
        (if usages evs \<noteq> []
         then foldl charge s (map (reported (modelId choice)) (usages evs))
         else if deltas evs \<noteq> []
         then charge s (estimate (modelId choice) (prompt p) (deltas evs))
         else s)) \<and>
   (trim (cprompt cp) \<noteq> [] \<and> \<not> cbusy cp \<longrightarrow>
      snd (compare_submit lft rgt (evs, fin) (cp, s)) =
        (let s1 = foldl charge s (tagged_usages lft rgt evs);
             s2 = (if side_usages Left evs = [] \<and> side_deltas Left evs \<noteq> []
                   then charge s1 (estimate (modelId lft) (cprompt cp) (side_deltas Left evs))
                   else s1)
         in if side_usages Right evs = [] \<and> side_deltas Right evs \<noteq> []
            then charge s2 (estimate (modelId rgt) (cprompt cp) (side_deltas Right evs))
            else s2)) \<and>
   (canSend p \<and> usages evs = [u] \<longrightarrow>
      sessionTokensIn (snd (submit choice (evs, fin) (p, s))) =
        sessionTokensIn s + nullish (prompt_tokens u) 0 \<and>
      sessionTokensOut (snd (submit choice (evs, fin) (p, s))) =
        sessionTokensOut s + nullish (completion_tokens u) 0 \<and>
      sessionCost (snd (submit choice (evs, fin) (p, s))) =
        js_add (sessionCost s)
          (calculateCost (nullish (prompt_tokens u) 0) (nullish (completion_tokens u) 0)
             (modelId choice)))"
proof -
  have "snd (submit choice (evs, fin) (p, s)) = charge s (reported (modelId choice) u)"
    if "canSend p" "usages evs = [u]"
    using that by (simp add: submit_store)
  then show ?thesis
    using submit_store [of p choice evs fin s] compare_submit_store [of cp lft rgt evs fin s]
    by (simp add: charge_def addUsage_def reported_def calculateCost_eq Let_def)
qed

theorem fallback_skipped_after_server_usage_witness:
  "canSend demo_panel \<and>
   usages [Delta (Some ''Hi'') None, Done None (Some demo_usage)] = [demo_usage] \<and>
   sessionTokensIn (snd (submit defaultChoice
      ([Delta (Some ''Hi'') None, Done None (Some demo_usage)], None)
      (demo_panel, initialState))) = 10 \<and>
   sessionTokensOut (snd (submit defaultChoice
      ([Delta (Some ''Hi'') None, Done None (Some demo_usage)], None)
      (demo_panel, initialState))) = 5 \<and>
   sessionCost (snd (submit defaultChoice
      ([Delta (Some ''Hi'') None, Done None (Some demo_usage)], None)
      (demo_panel, initialState))) = Num (1 / 40000) \<and>
   (trim (cprompt demo_compare) \<noteq> [] \<and> \<not> cbusy demo_compare) \<and>
   sessionTokensIn (snd (compare_submit defaultChoice gpt4o
      ([Delta (Some ''one'') (Some Left), Done (Some Left) (Some demo_usage),
        Delta (Some ''three'') (Some Right)], None)
      (demo_compare, initialState))) = 12 \<and>
   sessionTokensOut (snd (compare_submit defaultChoice gpt4o
      ([Delta (Some ''one'') (Some Left), Done (Some Left) (Some demo_usage),
        Delta (Some ''three'') (Some Right)], None)
      (demo_compare, initialState))) = 7"
proof -
  let ?evs = "[Delta (Some ''Hi'') None, Done None (Some demo_usage)]"
  let ?cevs = "[Delta (Some ''one'') (Some Left), Done (Some Left) (Some demo_usage),
        Delta (Some ''three'') (Some Right)]"
  have u: "usages ?evs = [demo_usage]"
    by (simp add: usages_def map_filter_simps)
  have t: "tagged_usages defaultChoice gpt4o ?cevs = [reported (modelId defaultChoice) demo_usage]"
    by (simp add: tagged_usages_def tagged_usage_def map_filter_simps)
  have su: "side_usages Left ?cevs = [demo_usage]" "side_usages Right ?cevs = []"
    by (simp_all add: side_usages_def side_usage_def map_filter_simps)
  have sd: "side_deltas Right ?cevs = ''three''"
    by (simp add: side_deltas_def)
  have len: "length (cprompt demo_compare) = 5"
    by (simp add: demo_compare_def)
  have z: "sessionTokensIn initialState = 0" "sessionTokensOut initialState = 0"
    "sessionCost initialState = Num 0"
    by (simp_all add: initialState_def)
  have n: "nullish (prompt_tokens demo_usage) 0 = 10" "nullish (completion_tokens demo_usage) 0 = 5"
    by (simp_all add: demo_usage_def nullish_def)
  show ?thesis
    using fallback_skipped_after_server_usage [of demo_panel defaultChoice ?evs None initialState
        demo_compare defaultChoice gpt4o demo_usage]
      fallback_skipped_after_server_usage [of demo_panel defaultChoice ?cevs None initialState
        demo_compare defaultChoice gpt4o demo_usage]
      demo_canSend demo_compare_canSend
    by (simp add: u t su sd len z n calculateCost_eq getPricing_default Let_def charge_def
        addUsage_def reported_def estimate_def)
qed


section \<open>Compare mode: events without a side\<close>

text \<open>
  C5, as stated, fails for \<^verbatim>\<open>error\<close> events. An \<^verbatim>\<open>error\<close> event without side tag is
  applied to both sides: the last branch of the handler sets the left and the right
  output.
\<close>

theorem untagged_error_shown_on_both_sides:
  "leftOutput (fst (compare_submit defaultChoice gpt4o ([Error (Some ''boom'') None], None)
      (demo_compare, initialState))) = ''Error: boom'' \<and>
   rightOutput (fst (compare_submit defaultChoice gpt4o ([Error (Some ''boom'') None], None)
      (demo_compare, initialState))) = ''Error: boom''"
  by (simp add: compare_submit_def demo_compare_def trim_def is_space_def Let_def
      compare_event_def compare_text_def compare_usage_def compare_fallback_left_def
      compare_fallback_right_def or_else_def keep_or_def)

text \<open>
  C5, amended. In compare mode a \<^verbatim>\<open>delta\<close>, \<^verbatim>\<open>done\<close> or \<^verbatim>\<open>complete\<close> event without side
  tag is ignored: it changes nothing of the panel, of the flags or of the store (and so does
  a \<^verbatim>\<open>start\<close> event). An \<^verbatim>\<open>error\<close> event without side tag changes the two outputs only:
  each side whose output is still empty shows \<^verbatim>\<open>"Error: "\<close> and the message, a side that
  has text keeps it; the accumulators, the usage records, the flags and the store stay.
\<close>

theorem untagged_event_in_compare_mode:
  "event_side ev = None \<Longrightarrow>
   compare_event lft rgt r ev =
     (case ev of
        Error msg sd \<Rightarrow>
          r\<lparr>cpanel := (cpanel r)\<lparr>
               leftOutput :=
                 (if leftOutput (cpanel r) \<noteq> [] then leftOutput (cpanel r)
                  else ''Error: '' @ or_else msg ''Stream failed''),
               rightOutput :=
                 (if rightOutput (cpanel r) \<noteq> [] then rightOutput (cpanel r)
                  else ''Error: '' @ or_else msg ''Stream failed'')\<rparr>\<rparr>
      | _ \<Rightarrow> r)"
  by (cases ev)
     (simp_all add: compare_event_def compare_text_def compare_usage_def Let_def keep_or_def
       split: option.splits)

theorem untagged_event_in_compare_mode_witness:
  "event_side (Delta (Some ''x'') None) = None \<and>
   compare_event defaultChoice gpt4o demo_run (Delta (Some ''x'') None) = demo_run \<and>
   event_side (Done None (Some demo_usage)) = None \<and>
   compare_event defaultChoice gpt4o demo_run (Done None (Some demo_usage)) = demo_run \<and>
   event_side (Error (Some ''boom'') None) = None \<and>
   leftOutput (cpanel (compare_event defaultChoice gpt4o demo_run (Error (Some ''boom'') None)))
     = ''abc'' \<and>
   rightOutput (cpanel (compare_event defaultChoice gpt4o demo_run (Error (Some ''boom'') None)))
     = ''Error: boom''"
  using untagged_event_in_compare_mode [of "Delta (Some ''x'') None" defaultChoice gpt4o demo_run]
    untagged_event_in_compare_mode [of "Done None (Some demo_usage)" defaultChoice gpt4o demo_run]
    untagged_event_in_compare_mode [of "Error (Some ''boom'') None" defaultChoice gpt4o demo_run]
  by (simp add: demo_run_def demo_compare_def or_else_def)


section \<open>Crew mode\<close>

lemma spread_idem: "spread (Some (spread existing update)) update = spread existing update"
  by (simp add: spread_def nullish_def Let_def split: option.splits)

lemma map_of_updateAgentOutput:
  "map_of (agentOutputs (updateAgentOutput b u s)) a =
     (if a = b then Some (spread (map_of (agentOutputs s) b) u)
      else map_of (agentOutputs s) a)"
  by (simp add: updateAgentOutput_def update_conv')

lemma updateAgentOutput_idem:
  "updateAgentOutput a u (updateAgentOutput a u s) = updateAgentOutput a u s"
  by (simp add: updateAgentOutput_def update_conv' spread_idem)

lemma updateAgentOutput_crewTotalCost:
  "crewTotalCost (updateAgentOutput a u s) = crewTotalCost s"
  by (simp add: updateAgentOutput_def)

lemma agent_text_updateAgentOutput:
  "agent_text (updateAgentOutput b u s) a =
     (if a = b then nullish (u_text u) (agent_text s a) else agent_text s a)"
  by (simp add: agent_text_def map_of_updateAgentOutput spread_def nullish_def Let_def
      split: option.splits)

lemma agent_tokens_updateAgentOutput:
  "agent_tokens (updateAgentOutput b u s) a =
     (if a = b then (case u_tokens u of Some t \<Rightarrow> Some t | None \<Rightarrow> agent_tokens s a)
      else agent_tokens s a)"
  by (simp add: agent_tokens_def map_of_updateAgentOutput spread_def nullish_def Let_def
      split: option.splits)

lemma agent_cost_updateAgentOutput:
  "agent_cost (updateAgentOutput b u s) a =
     (if a = b then (case u_cost u of Some c \<Rightarrow> Some c | None \<Rightarrow> agent_cost s a)
      else agent_cost s a)"
  by (simp add: agent_cost_def map_of_updateAgentOutput spread_def nullish_def Let_def
      split: option.splits)

lemma crew_start_agent_text:
  "u_text u = Some [] \<Longrightarrow>
   agent_text (foldl (\<lambda>st b. updateAgentOutput b u st) s agents) a =
     (if a \<in> set agents then [] else agent_text s a)"
  by (induction agents arbitrary: s rule: rev_induct)
     (simp_all add: agent_text_updateAgentOutput nullish_def)

lemma crew_start_crewTotalCost:
  "crewTotalCost (foldl (\<lambda>st b. updateAgentOutput b u st) s agents) = crewTotalCost s"
  by (induction agents arbitrary: s rule: rev_induct)
     (simp_all add: updateAgentOutput_crewTotalCost)

lemma crew_event_crewTotalCost:
  "\<not> sets_total ev \<Longrightarrow> crewTotalCost (snd (crew_event ps ev)) = crewTotalCost (snd ps)"
  by (cases ps; cases ev rule: sets_total.cases)
     (simp_all add: crew_start_crewTotalCost updateAgentOutput_crewTotalCost
       setSynthesisText_def split: option.splits)

lemma crew_loop_crewTotalCost:
  "\<not> list_ex sets_total evs \<Longrightarrow>
   crewTotalCost (snd (foldl crew_event ps evs)) = crewTotalCost (snd ps)"
  by (induction evs arbitrary: ps) (simp_all add: crew_event_crewTotalCost)

lemma crew_done_crewTotalCost:
  "crewTotalCost (snd (crew_event ps (CrewDone (Some c)))) = c"
  by (cases ps) (simp add: setCrewTotalCost_def)


text \<open>
  C8, as stated, fails for a total that is not positive. After an agent has reported a cost
  of \<open>0.02\<close>, a \<^verbatim>\<open>crew_done\<close> with \<^verbatim>\<open>totalCost\<close> \<open>0\<close> leaves the dashboard at the
  sum of the agents' costs, \<open>0.02\<close>: the dashboard takes the crew total only when it is
  greater than \<open>0\<close>.
\<close>

theorem zero_crew_total_not_displayed:
  "totalCost (snd (handleSubmit
      ([AgentDone (Some ''planner'') None (Some (1 / 50)) (Some 40), CrewDone (Some 0)], None)
      (demo_crew, initialState))) = 1 / 50 \<and>
   totals_row (snd (handleSubmit
      ([AgentDone (Some ''planner'') None (Some (1 / 50)) (Some 40), CrewDone (Some 0)], None)
      (demo_crew, initialState))) = Some (1 / 50)"
  by (simp add: handleSubmit_def demo_crew_def trim_def is_space_def Let_def resetCrewState_def
      initialState_def updateAgentOutput_def spread_def nullish_def no_update_def
      setCrewTotalCost_def totalCost_def agentCostSum_def totals_row_def hasAnyDone_def
      totalTokens_def)

text \<open>
  C8, amended. Once a \<^verbatim>\<open>crew_done\<close> event with a \<^verbatim>\<open>totalCost\<close> greater than \<open>0\<close> has
  arrived, the total cost of the dashboard is that value, whatever the agents' costs sum to,
  and it stays so under every later event that is not another \<^verbatim>\<open>crew_done\<close> with a
  number. For a \<^verbatim>\<open>totalCost\<close> that is \<open>0\<close> or negative the dashboard shows the sum of
  the agents' costs.
\<close>

theorem crew_done_total_cost:
  "(0 < c \<and> \<not> list_ex sets_total later \<longrightarrow>
      totalCost (snd (foldl crew_event ps (earlier @ CrewDone (Some c) # later))) = c \<and>
      totals_row (snd (foldl crew_event ps (earlier @ CrewDone (Some c) # later))) =
        (if hasAnyDone (snd (foldl crew_event ps (earlier @ CrewDone (Some c) # later)))
         then Some c else None)) \<and>
   (c \<le> 0 \<longrightarrow>
      totalCost (snd (crew_event (p, s) (CrewDone (Some c)))) = agentCostSum s)"
proof -
  have kept: "crewTotalCost (snd (foldl crew_event ps (earlier @ CrewDone (Some c) # later))) = c"
    if "\<not> list_ex sets_total later"
    using that by (simp add: crew_loop_crewTotalCost crew_done_crewTotalCost)
  have positive: "totalCost st = c \<and> totals_row st = (if hasAnyDone st then Some c else None)"
    if "crewTotalCost st = c" "0 < c" for st
    using that by (simp add: totalCost_def totals_row_def)
  have fallback: "totalCost (snd (crew_event (p, s) (CrewDone (Some c)))) = agentCostSum s"
    if "c \<le> 0"
    using that by (simp add: totalCost_def setCrewTotalCost_def agentCostSum_def)
  show ?thesis
    using kept positive fallback by blast
qed

theorem crew_done_total_cost_witness:
  "((0::real) < 1 / 50 \<and> \<not> list_ex sets_total [SynthesisDelta (Some ''ok'')]) \<and>
   totalCost (snd (foldl crew_event (demo_crew, initialState)
      ([AgentDone (Some ''planner'') None (Some (3 / 100)) (Some 40)]
        @ CrewDone (Some (1 / 50)) # [SynthesisDelta (Some ''ok'')]))) = 1 / 50 \<and>
   totals_row (snd (foldl crew_event (demo_crew, initialState)
      ([AgentDone (Some ''planner'') None (Some (3 / 100)) (Some 40)]
        @ CrewDone (Some (1 / 50)) # [SynthesisDelta (Some ''ok'')]))) = Some (1 / 50) \<and>
   (0::real) \<le> 0 \<and>
   totalCost (snd (crew_event (demo_crew, initialState) (CrewDone (Some 0)))) =
     agentCostSum initialState"
proof -
  have anydone: "hasAnyDone (snd (foldl crew_event (demo_crew, initialState)
      ([AgentDone (Some ''planner'') None (Some (3 / 100)) (Some 40)]
        @ CrewDone (Some (1 / 50)) # [SynthesisDelta (Some ''ok'')])))"
    by (simp add: hasAnyDone_def updateAgentOutput_def spread_def nullish_def no_update_def
        setCrewTotalCost_def setSynthesisText_def initialState_def Let_def)
  show ?thesis
    using crew_done_total_cost [of "1 / 50" "[SynthesisDelta (Some ''ok'')]"
        "(demo_crew, initialState)"
        "[AgentDone (Some ''planner'') None (Some (3 / 100)) (Some 40)]" demo_crew initialState]
      crew_done_total_cost [of 0 "[]" "(demo_crew, initialState)" "[]" demo_crew initialState]
      anydone
    by simp
qed

text \<open>
  C9, as stated, fails. A \<^verbatim>\<open>crew_start\<close> that lists an agent after text has been appended
  for it erases the text: the handler passes \<^verbatim>\<open>text: ""\<close> in the update, and the update is
  spread last.
\<close>

theorem crew_start_erases_agent_text:
  "agent_text (snd (handleSubmit
      ([AgentDelta (Some ''planner'') None (Some ''step 1'')], None)
      (demo_crew, initialState))) ''planner'' = ''step 1'' \<and>
   agent_text (snd (handleSubmit
      ([AgentDelta (Some ''planner'') None (Some ''step 1''),
        CrewStart None (Some [''planner''])], None)
      (demo_crew, initialState))) ''planner'' = []"
  by (simp add: handleSubmit_def demo_crew_def trim_def is_space_def Let_def resetCrewState_def
      initialState_def updateAgentOutput_def spread_def nullish_def no_update_def agent_text_def)

text \<open>
  C9, amended. The text held for an agent is append-only under every event but
  \<^verbatim>\<open>crew_start\<close>: an \<^verbatim>\<open>agent_delta\<close> for the agent appends to it, also when the agent has
  no entry yet, and every other event leaves it as it is; a \<^verbatim>\<open>crew_start\<close> that lists the
  agent sets its text to the empty string, and leaves the text of the agents it does not
  list.
\<close>

theorem agent_text_after_event:
  "agent_text (snd (crew_event (p, s) ev)) a =
     (case ev of
        CrewStart sid (Some agents) \<Rightarrow> (if a \<in> set agents then [] else agent_text s a)
      | AgentDelta (Some b) sub (Some t) \<Rightarrow>
          (if b = a \<and> a \<noteq> [] then agent_text s a @ t else agent_text s a)
      | _ \<Rightarrow> agent_text s a)"
proof (cases ev)
  case (CrewStart sid agents)
  have "u_text (no_update\<lparr>u_status := Some ''pending'', u_text := Some [], u_model := Some []\<rparr>)
      = Some []"
    by simp
  then show ?thesis
    using CrewStart by (cases agents) (simp_all add: crew_start_agent_text nullish_def)
next
  case (Plan subtasks)
  then show ?thesis by simp
next
  case (AgentStart agent sub mdl)
  then show ?thesis
    by (cases agent) (simp_all add: agent_text_updateAgentOutput no_update_def nullish_def)
next
  case (AgentDelta agent sub piece)
  then show ?thesis
    by (cases agent; cases piece)
       (auto simp: agent_text_updateAgentOutput no_update_def nullish_def)
next
  case (AgentDone agent sub c tk)
  then show ?thesis
    by (cases agent) (simp_all add: agent_text_updateAgentOutput no_update_def nullish_def)
next
  case (SynthesisDelta piece)
  then show ?thesis
    by (cases piece) (simp_all add: setSynthesisText_def agent_text_def)
next
  case (CrewDone total)
  then show ?thesis
    by (cases total) (simp_all add: setCrewTotalCost_def agent_text_def)
next
  case (CrewError msg)
  then show ?thesis by simp
qed

theorem agent_text_after_event_witness:
  "agent_text (snd (crew_event (demo_crew, initialState)
      (AgentDelta (Some ''planner'') None (Some ''step 1'')))) ''planner'' = ''step 1'' \<and>
   agent_text (snd (crew_event (demo_crew, demo_store)
      (AgentDelta (Some ''planner'') None (Some ''step 1'')))) ''planner'' = ''step 1'' \<and>
   agent_text (snd (crew_event
      (demo_crew, snd (crew_event (demo_crew, initialState)
         (AgentDelta (Some ''planner'') None (Some ''step 1''))))
      (CrewStart None (Some [''planner''])))) ''planner'' = []"
proof -
  have empty: "agent_text initialState ''planner'' = []" "agent_text demo_store ''planner'' = []"
    by (simp_all add: agent_text_def initialState_def demo_store_def updateAgentOutput_def
        spread_def nullish_def no_update_def Let_def)
  show ?thesis
    using agent_text_after_event [of demo_crew initialState
        "AgentDelta (Some ''planner'') None (Some ''step 1'')" "''planner''"]
      agent_text_after_event [of demo_crew demo_store
        "AgentDelta (Some ''planner'') None (Some ''step 1'')" "''planner''"]
      agent_text_after_event [of demo_crew
        "snd (crew_event (demo_crew, initialState)
           (AgentDelta (Some ''planner'') None (Some ''step 1'')))"
        "CrewStart None (Some [''planner''])" "''planner''"]
    by (simp add: empty del: crew_event.simps)
qed

text \<open>
  C10. An \<^verbatim>\<open>agent_done\<close> event is merged field by field. Applying the same event twice
  gives the state that applying it once gives. An event without \<^verbatim>\<open>tokens\<close> leaves the
  tokens known for every agent as they were, and one without \<^verbatim>\<open>cost\<close> leaves the costs;
  in particular \<^verbatim>\<open>agent_done{cost: 5, tokens: undefined}\<close> applied twice leaves the tokens
  at the value that an earlier event had set.
\<close>

theorem agent_done_merge_idempotent:
  "crew_event (crew_event (p, s) (AgentDone agent sub c tk)) (AgentDone agent sub c tk) =
     crew_event (p, s) (AgentDone agent sub c tk) \<and>
   agent_tokens (snd (crew_event (p, s) (AgentDone agent sub c None))) a = agent_tokens s a \<and>
   agent_cost (snd (crew_event (p, s) (AgentDone agent sub None tk))) a = agent_cost s a \<and>
   agent_tokens (snd (crew_event (crew_event (p, s) (AgentDone agent sub (Some 5) None))
       (AgentDone agent sub (Some 5) None))) a = agent_tokens s a \<and>
   agent_cost (snd (crew_event (crew_event (p, s) (AgentDone agent sub (Some 5) None))
       (AgentDone agent sub (Some 5) None))) a =
     (if agent = Some a \<and> a \<noteq> [] then Some 5 else agent_cost s a)"
  by (cases agent)
     (auto simp: updateAgentOutput_idem agent_tokens_updateAgentOutput
       agent_cost_updateAgentOutput no_update_def)


theorem agent_done_merge_idempotent_witness:
  "agent_tokens demo_store ''planner'' = Some 40 \<and>
   agent_tokens (snd (crew_event
       (crew_event (demo_crew, demo_store) (AgentDone (Some ''planner'') None (Some 5) None))
       (AgentDone (Some ''planner'') None (Some 5) None))) ''planner'' = Some 40 \<and>
   agent_cost (snd (crew_event
       (crew_event (demo_crew, demo_store) (AgentDone (Some ''planner'') None (Some 5) None))
       (AgentDone (Some ''planner'') None (Some 5) None))) ''planner'' = Some 5"
proof -
  have before: "agent_tokens demo_store ''planner'' = Some 40"
    by (simp add: agent_tokens_def demo_store_def updateAgentOutput_def spread_def nullish_def
        no_update_def initialState_def Let_def)
  note twice = agent_done_merge_idempotent [of demo_crew demo_store "Some ''planner''" None
      "Some 5" None "''planner''"]
  have kept: "agent_tokens (snd (crew_event
       (crew_event (demo_crew, demo_store) (AgentDone (Some ''planner'') None (Some 5) None))
       (AgentDone (Some ''planner'') None (Some 5) None))) ''planner'' = Some 40"
    using twice before by (simp only:)
  have priced: "agent_cost (snd (crew_event
       (crew_event (demo_crew, demo_store) (AgentDone (Some ''planner'') None (Some 5) None))
       (AgentDone (Some ''planner'') None (Some 5) None))) ''planner'' = Some 5"
    using twice [THEN conjunct2, THEN conjunct2, THEN conjunct2, THEN conjunct2]
    by (simp del: crew_event.simps)
  show ?thesis
    using before kept priced by (simp only: simp_thms)
qed

end
